theory Spec2Isabelle
  imports Main
begin

section \<open>Data model (src/types.ts)\<close>

text \<open>
  A property of a JavaScript object is missing, holds \<open>undefined\<close>, or holds a value.
  The optional fields of the interfaces (\<open>field?: T\<close>) are of this kind.
\<close>

datatype 'a optional = Absent | Undefined | Value 'a

text \<open>The \<open>status\<close> literals \<open>'none' | 'asked' | 'answered'\<close>.\<close>

datatype Status = none | asked | answered

text \<open>\<open>interface Answer\<close>: all five fields are required.\<close>

record Answer =
  answer :: string
  isCorrect :: bool
  mistakes :: string
  explanation :: string
  answeredAt :: string

text \<open>
  The \<open>answers\<close> property of a stored question, as \<open>isQuestionV1\<close> looks at it:
  the key is missing, its value is \<open>undefined\<close>, its value is not an array
  (\<open>null\<close>, which the store can hold), or it is an array of answers.
\<close>

datatype AnswersField =
  AnswersAbsent | AnswersUndefined | AnswersNull | AnswersArray "Answer list"

text \<open>
  A question object as the store hands it over is a \<open>Question | QuestionV1\<close>: one record
  with the fields of both interfaces. \<open>id'\<close> is the source's \<open>id\<close>; the legacy fields
  \<open>answer\<close>, \<open>isCorrect\<close>, \<open>mistakes\<close>, \<open>explanation\<close>, \<open>answeredAt\<close> of
  \<open>QuestionV1\<close> carry the suffix \<open>V1\<close>, since \<open>Answer\<close> has fields of the same names.
\<close>

record Question =
  id' :: string
  status :: Status
  question :: string
  answers :: AnswersField
  questionExplanation :: "string optional"
  contextConversation :: "string optional"
  askedAt :: "string optional"
  answerV1 :: "string optional"
  isCorrectV1 :: "bool optional"
  mistakesV1 :: "string optional"
  explanationV1 :: "string optional"
  answeredAtV1 :: "string optional"

text \<open>\<open>interface DailyQuestions\<close>: per date, the ids asked and the ids answered.\<close>

record DailyRecord =
  askedQuestionIds :: "string list"
  answeredQuestionIds :: "string list"

type_synonym DailyQuestions = "string \<rightharpoonup> DailyRecord"

text \<open>
  \<open>interface UserDocument\<close>, also the raw document of \<open>getUserDocument\<close>, whose
  \<open>dailyQuestions\<close> is typed \<open>any\<close>: \<open>None\<close> is a missing (or null) \<open>dailyQuestions\<close>,
  which \<open>markQuestionAsked\<close> replaces by \<open>{}\<close>.
\<close>

record UserDocument =
  questions :: "Question list"
  dailyQuestions :: "DailyQuestions option"
  level :: string

section \<open>JavaScript operators on optional values\<close>

text \<open>Truthiness of an optional string: a non-empty string value.\<close>

fun truthy :: "string optional \<Rightarrow> bool" where
  "truthy (Value s) = (s \<noteq> [])"
| "truthy Absent = False"
| "truthy Undefined = False"

text \<open>\<open>x ?? d\<close>: the default replaces a missing or undefined value only.\<close>

fun nullish :: "'a optional \<Rightarrow> 'a \<Rightarrow> 'a" where
  "nullish (Value v) d = v"
| "nullish Absent d = d"
| "nullish Undefined d = d"

text \<open>\<open>x || d\<close> on an optional string: the default replaces every falsy value.\<close>

definition orElse :: "string optional \<Rightarrow> string \<Rightarrow> string" where
  "orElse x d = (if truthy x then nullish x d else d)"

section \<open>Schema migration (src/services/firestore.ts)\<close>

text \<open>
  \<open>isQuestionV1\<close>: \<open>!('answers' in question) || question.answers === undefined ||
  !Array.isArray(question.answers)\<close>.
\<close>

fun isQuestionV1 :: "Question \<Rightarrow> bool" where
  "isQuestionV1 q =
     (case answers q of
        AnswersAbsent \<Rightarrow> True
      | AnswersUndefined \<Rightarrow> True
      | AnswersNull \<Rightarrow> True
      | AnswersArray as \<Rightarrow> False)"

text \<open>
  The object literal \<open>{ id, status, question, answers }\<close> of \<open>migrateQuestion\<close>: every
  other key is missing.
\<close>

definition freshQuestion :: "Question \<Rightarrow> Answer list \<Rightarrow> Question" where
  "freshQuestion oldQuestion as =
     \<lparr> id' = id' oldQuestion, status = status oldQuestion, question = question oldQuestion,
       answers = AnswersArray as,
       questionExplanation = Absent, contextConversation = Absent, askedAt = Absent,
       answerV1 = Absent, isCorrectV1 = Absent, mistakesV1 = Absent,
       explanationV1 = Absent, answeredAtV1 = Absent \<rparr>"

text \<open>
  The three \<open>if (oldQuestion.f) migrated.f = oldQuestion.f\<close> statements, in the source's
  order.
\<close>

definition copyOptional :: "Question \<Rightarrow> Question \<Rightarrow> Question" where
  "copyOptional oldQuestion migrated =
     (let m1 = (if truthy (questionExplanation oldQuestion)
                then migrated\<lparr>questionExplanation := questionExplanation oldQuestion\<rparr>
                else migrated);
          m2 = (if truthy (contextConversation oldQuestion)
                then m1\<lparr>contextConversation := contextConversation oldQuestion\<rparr>
                else m1);
          m3 = (if truthy (askedAt oldQuestion)
                then m2\<lparr>askedAt := askedAt oldQuestion\<rparr>
                else m2)
      in m3)"

definition migratedAnswer :: "Question \<Rightarrow> Answer" where
  \<comment> \<open>\<open>answer\<close> and \<open>answeredAt\<close> are read under the guard that makes them non-empty strings\<close>
  "migratedAnswer oldQuestion =
     \<lparr> answer = nullish (answerV1 oldQuestion) [],
       isCorrect = nullish (isCorrectV1 oldQuestion) False,
       mistakes = orElse (mistakesV1 oldQuestion) ''none'',
       explanation = orElse (explanationV1 oldQuestion) [],
       answeredAt = nullish (answeredAtV1 oldQuestion) [] \<rparr>"

definition migrateQuestion :: "Question \<Rightarrow> Question" where
  "migrateQuestion q =
     (if \<not> isQuestionV1 q then q
      else if truthy (answerV1 q) \<and> truthy (answeredAtV1 q)
        then copyOptional q (freshQuestion q [migratedAnswer q])
        else copyOptional q (freshQuestion q []))"

definition migrateUserDocument :: "UserDocument \<Rightarrow> UserDocument" where
  "migrateUserDocument doc =
     \<lparr> questions = map migrateQuestion (questions doc),
       dailyQuestions = dailyQuestions doc,
       level = level doc \<rparr>"

section \<open>The document store (firebase/firestore)\<close>

text \<open>
  What the store's primitives and the handlers' property reads can throw: \<open>updateDoc\<close> on
  a document that does not exist, a write of an \<open>undefined\<close> field value, a property read
  on \<open>undefined\<close> or \<open>null\<close>, and a failed call of an external service.
\<close>

datatype error = NotFound | InvalidData | TypeError | ServiceError

text \<open>\<open>Partial<UserDocument>\<close>: every key may be missing or hold \<open>undefined\<close>.\<close>

record UserDocumentUpdates =
  questions_u :: "Question list optional"
  dailyQuestions_u :: "DailyQuestions optional"
  level_u :: "string optional"

datatype storeWrite = SetDoc string UserDocument | UpdateDoc string UserDocumentUpdates

text \<open>
  The collection \<open>users\<close>, keyed by uid, and the trace of the writes made to it (the
  trace tells a write that stores what was there from no write).
\<close>

record Firestore =
  docs :: "string \<rightharpoonup> UserDocument"
  writes :: "storeWrite list"

definition getDoc :: "string \<Rightarrow> Firestore \<Rightarrow> UserDocument option" where
  "getDoc uid fs = docs fs uid"

definition setDoc :: "string \<Rightarrow> UserDocument \<Rightarrow> Firestore \<Rightarrow> (error + unit) \<times> Firestore" where
  "setDoc uid d fs =
     (Inr (), fs\<lparr>docs := (docs fs)(uid \<mapsto> d), writes := writes fs @ [SetDoc uid d]\<rparr>)"

text \<open>The fields of an update replace those of the stored document; the others stay.\<close>

definition applyUpdates :: "UserDocument \<Rightarrow> UserDocumentUpdates \<Rightarrow> UserDocument" where
  "applyUpdates d u =
     d\<lparr> questions := nullish (questions_u u) (questions d),
        dailyQuestions := (case dailyQuestions_u u of Value m \<Rightarrow> Some m | Absent \<Rightarrow> dailyQuestions d
                           | Undefined \<Rightarrow> dailyQuestions d),
        level := nullish (level_u u) (level d) \<rparr>"

text \<open>
  \<open>updateDoc\<close> rejects an \<open>undefined\<close> field value and fails on a document that does not
  exist. (Its rejection of \<open>undefined\<close> nested inside a question is not modelled.)
\<close>

definition updateDoc ::
  "string \<Rightarrow> UserDocumentUpdates \<Rightarrow> Firestore \<Rightarrow> (error + unit) \<times> Firestore" where
  "updateDoc uid u fs =
     (if questions_u u = Undefined \<or> dailyQuestions_u u = Undefined \<or> level_u u = Undefined
      then (Inl InvalidData, fs)
      else (case docs fs uid of
              None \<Rightarrow> (Inl NotFound, fs)
            | Some d \<Rightarrow>
                (Inr (), fs\<lparr>docs := (docs fs)(uid \<mapsto> applyUpdates d u),
                             writes := writes fs @ [UpdateDoc uid u]\<rparr>)))"

text \<open>
  \<open>await m\<close> followed by the rest of an async function: a rejected promise ends the
  function with the error and the store as it is then.
\<close>

definition await ::
  "(Firestore \<Rightarrow> (error + 'a) \<times> Firestore) \<Rightarrow> ('a \<Rightarrow> Firestore \<Rightarrow> (error + 'b) \<times> Firestore)
   \<Rightarrow> Firestore \<Rightarrow> (error + 'b) \<times> Firestore" where
  "await m f fs = (case m fs of (Inl e, fs') \<Rightarrow> (Inl e, fs') | (Inr x, fs') \<Rightarrow> f x fs')"

section \<open>Question repository (src/services/firestore.ts)\<close>

text \<open>\<open>removeUndefined\<close> on one property: an \<open>undefined\<close> value is not copied.\<close>

fun dropUndefined :: "'a optional \<Rightarrow> 'a optional" where
  "dropUndefined Undefined = Absent"
| "dropUndefined Absent = Absent"
| "dropUndefined (Value v) = Value v"

text \<open>\<open>removeUndefined\<close> at \<open>Partial<UserDocument>\<close>.\<close>

definition removeUndefined_doc :: "UserDocumentUpdates \<Rightarrow> UserDocumentUpdates" where
  "removeUndefined_doc obj =
     \<lparr> questions_u = dropUndefined (questions_u obj),
       dailyQuestions_u = dropUndefined (dailyQuestions_u obj),
       level_u = dropUndefined (level_u obj) \<rparr>"

definition initialDoc :: UserDocument where
  "initialDoc = \<lparr> questions = [], dailyQuestions = Some Map.empty, level = ''a0'' \<rparr>"

text \<open>The result is the source's \<open>UserDocument | null\<close>: \<open>None\<close> is \<open>null\<close>.\<close>

definition getUserDocument ::
  "string \<Rightarrow> Firestore \<Rightarrow> (error + UserDocument option) \<times> Firestore" where
  "getUserDocument uid fs =
     (case getDoc uid fs of
        Some rawDoc \<Rightarrow>
          (let migratedDoc = migrateUserDocument rawDoc;
               needsUpdate = list_ex isQuestionV1 (questions rawDoc)
           in if needsUpdate
              then await (updateDoc uid \<lparr> questions_u = Value (questions migratedDoc),
                                          dailyQuestions_u = Absent, level_u = Absent \<rparr>)
                     (\<lambda>_. Pair (Inr (Some migratedDoc))) fs
              else (Inr (Some migratedDoc), fs))
      | None \<Rightarrow> await (setDoc uid initialDoc) (\<lambda>_. Pair (Inr (Some initialDoc))) fs)"

definition updateUserDocument ::
  "string \<Rightarrow> UserDocumentUpdates \<Rightarrow> Firestore \<Rightarrow> (error + unit) \<times> Firestore" where
  "updateUserDocument uid updates fs = updateDoc uid (removeUndefined_doc updates) fs"

definition addQuestion :: "string \<Rightarrow> Question \<Rightarrow> Firestore \<Rightarrow> (error + unit) \<times> Firestore" where
  "addQuestion uid q =
     await (getUserDocument uid)
       (\<lambda>userDoc. case userDoc of
            None \<Rightarrow> Pair (Inr ())
          | Some d \<Rightarrow>
              updateUserDocument uid \<lparr> questions_u = Value (questions d @ [q]),
                                       dailyQuestions_u = Absent, level_u = Absent \<rparr>)"

text \<open>\<open>Partial<Question>\<close>, the \<open>updates\<close> of \<open>updateQuestion\<close>.\<close>

record QuestionUpdates =
  id_u :: "string optional"
  status_u :: "Status optional"
  question_u :: "string optional"
  answers_u :: "Answer list optional"
  questionExplanation_u :: "string optional"
  contextConversation_u :: "string optional"
  askedAt_u :: "string optional"

text \<open>\<open>removeUndefined\<close> at \<open>Partial<Question>\<close>.\<close>

definition removeUndefined_updates :: "QuestionUpdates \<Rightarrow> QuestionUpdates" where
  "removeUndefined_updates obj =
     \<lparr> id_u = dropUndefined (id_u obj),
       status_u = dropUndefined (status_u obj),
       question_u = dropUndefined (question_u obj),
       answers_u = dropUndefined (answers_u obj),
       questionExplanation_u = dropUndefined (questionExplanation_u obj),
       contextConversation_u = dropUndefined (contextConversation_u obj),
       askedAt_u = dropUndefined (askedAt_u obj) \<rparr>"

text \<open>\<open>removeUndefined\<close> at \<open>Question\<close>; the required fields hold values.\<close>

definition removeUndefined_question :: "Question \<Rightarrow> Question" where
  "removeUndefined_question obj =
     obj\<lparr> answers := (case answers obj of AnswersUndefined \<Rightarrow> AnswersAbsent | a \<Rightarrow> a),
          questionExplanation := dropUndefined (questionExplanation obj),
          contextConversation := dropUndefined (contextConversation obj),
          askedAt := dropUndefined (askedAt obj),
          answerV1 := dropUndefined (answerV1 obj),
          isCorrectV1 := dropUndefined (isCorrectV1 obj),
          mistakesV1 := dropUndefined (mistakesV1 obj),
          explanationV1 := dropUndefined (explanationV1 obj),
          answeredAtV1 := dropUndefined (answeredAtV1 obj) \<rparr>"

text \<open>
  One key of the spread \<open>{ ...q, ...cleanedUpdates }\<close>: a key of \<open>cleanedUpdates\<close>
  overwrites, whatever it holds; a key it lacks leaves the one of \<open>q\<close>.
\<close>

fun spreadKey :: "'a optional \<Rightarrow> 'a optional \<Rightarrow> 'a optional" where
  "spreadKey old Absent = old"
| "spreadKey old Undefined = Undefined"
| "spreadKey old (Value v) = Value v"

text \<open>
  The spread \<open>{ ...q, ...cleanedUpdates }\<close>. For \<open>id\<close>, \<open>status\<close> and \<open>question\<close>, which
  the record holds as plain values, a value overwrites; \<open>cleanedUpdates\<close> comes out of
  \<open>removeUndefined\<close> and holds no \<open>undefined\<close> for them.
\<close>

definition spread :: "Question \<Rightarrow> QuestionUpdates \<Rightarrow> Question" where
  "spread q c =
     q\<lparr> id' := nullish (id_u c) (id' q),
        status := nullish (status_u c) (status q),
        question := nullish (question_u c) (question q),
        answers := (case answers_u c of Absent \<Rightarrow> answers q | Undefined \<Rightarrow> AnswersUndefined
                    | Value as \<Rightarrow> AnswersArray as),
        questionExplanation := spreadKey (questionExplanation q) (questionExplanation_u c),
        contextConversation := spreadKey (contextConversation q) (contextConversation_u c),
        askedAt := spreadKey (askedAt q) (askedAt_u c) \<rparr>"

definition updateQuestion ::
  "string \<Rightarrow> string \<Rightarrow> QuestionUpdates \<Rightarrow> Firestore \<Rightarrow> (error + unit) \<times> Firestore" where
  "updateQuestion uid questionId updates =
     await (getUserDocument uid)
       (\<lambda>userDoc. case userDoc of
            None \<Rightarrow> Pair (Inr ())
          | Some d \<Rightarrow>
              (let cleanedUpdates = removeUndefined_updates updates;
                   updatedQuestions =
                     map (\<lambda>q. if id' q = questionId
                               then removeUndefined_question (spread q cleanedUpdates)
                               else q)
                       (questions d)
               in updateUserDocument uid \<lparr> questions_u = Value updatedQuestions,
                                            dailyQuestions_u = Absent, level_u = Absent \<rparr>))"

section \<open>Daily activity ledger (src/services/firestore.ts)\<close>

text \<open>
  \<open>getTodayDate\<close>: \<open>new Date().toISOString().split('T')[0]\<close>, with the ISO string of the
  current instant as its argument.
\<close>

definition getTodayDate :: "string \<Rightarrow> string" where
  "getTodayDate now = takeWhile (\<lambda>c. c \<noteq> CHR ''T'') now"

definition emptyDay :: DailyRecord where
  "emptyDay = \<lparr> askedQuestionIds = [], answeredQuestionIds = [] \<rparr>"

definition markQuestionAsked ::
  "string \<Rightarrow> string \<Rightarrow> string \<Rightarrow> Firestore \<Rightarrow> (error + unit) \<times> Firestore" where
  "markQuestionAsked uid questionId now =
     await (getUserDocument uid)
       (\<lambda>userDoc. case userDoc of
            None \<Rightarrow> Pair (Inr ())
          | Some d \<Rightarrow>
              (let today = getTodayDate now;
                   daily = (case dailyQuestions d of None \<Rightarrow> Map.empty | Some m \<Rightarrow> m);
                   todayQuestions = (case daily today of None \<Rightarrow> emptyDay | Some r \<Rightarrow> r);
                   pushed = (if questionId \<notin> set (askedQuestionIds todayQuestions)
                             then todayQuestions\<lparr>askedQuestionIds :=
                                    askedQuestionIds todayQuestions @ [questionId]\<rparr>
                             else todayQuestions)
               in updateUserDocument uid \<lparr> questions_u = Absent,
                                            dailyQuestions_u = Value (daily(today \<mapsto> pushed)),
                                            level_u = Absent \<rparr>))"

definition markQuestionAnswered ::
  "string \<Rightarrow> string \<Rightarrow> string \<Rightarrow> Firestore \<Rightarrow> (error + unit) \<times> Firestore" where
  "markQuestionAnswered uid questionId now =
     await (getUserDocument uid)
       (\<lambda>userDoc. case userDoc of
            None \<Rightarrow> Pair (Inr ())
          | Some d \<Rightarrow>
              (let today = getTodayDate now;
                   daily = (case dailyQuestions d of None \<Rightarrow> Map.empty | Some m \<Rightarrow> m);
                   todayQuestions = (case daily today of None \<Rightarrow> emptyDay | Some r \<Rightarrow> r);
                   pushed = (if questionId \<notin> set (answeredQuestionIds todayQuestions)
                             then todayQuestions\<lparr>answeredQuestionIds :=
                                    answeredQuestionIds todayQuestions @ [questionId]\<rparr>
                             else todayQuestions)
               in updateUserDocument uid \<lparr> questions_u = Absent,
                                            dailyQuestions_u = Value (daily(today \<mapsto> pushed)),
                                            level_u = Absent \<rparr>))"


section \<open>Generate-question handler (api)\<close>

text \<open>
  \<open>a.answers[a.answers.length - 1]\<close>: reading \<open>length\<close> of a missing, undefined or null
  \<open>answers\<close> throws; the element of an empty array at index \<open>-1\<close> is \<open>undefined\<close>
  (\<open>None\<close>).
\<close>

definition lastAnswer :: "Question \<Rightarrow> error + Answer option" where
  "lastAnswer q =
     (case answers q of
        AnswersArray as \<Rightarrow> Inr (if as = [] then None else Some (last as))
      | AnswersAbsent \<Rightarrow> Inl TypeError
      | AnswersUndefined \<Rightarrow> Inl TypeError
      | AnswersNull \<Rightarrow> Inl TypeError)"

text \<open>\<open>a.answers[a.answers.length - 1].f\<close>: a property read on \<open>undefined\<close> throws.\<close>

definition lastAnswerProp :: "(Answer \<Rightarrow> 'a) \<Rightarrow> Question \<Rightarrow> error + 'a" where
  "lastAnswerProp f q =
     (case lastAnswer q of
        Inl e \<Rightarrow> Inl e
      | Inr None \<Rightarrow> Inl TypeError
      | Inr (Some a) \<Rightarrow> Inr (f a))"

text \<open>
  \<open>aTime\<close> of the comparator. \<open>getTime s\<close> stands for \<open>new Date(s).getTime()\<close>: the
  milliseconds of a timestamp that parses, \<open>None\<close> for the \<open>NaN\<close> of one that does not.
\<close>

definition answerTime :: "(string \<Rightarrow> int option) \<Rightarrow> Question \<Rightarrow> error + int option" where
  "answerTime getTime a =
     (case lastAnswerProp answeredAt a of
        Inl e \<Rightarrow> Inl e
      | Inr s \<Rightarrow> Inr (if s \<noteq> [] then getTime s else Some 0))"

text \<open>\<open>aTime - bTime\<close>: \<open>NaN\<close> when either time is.\<close>

fun minusTime :: "int option \<Rightarrow> int option \<Rightarrow> int option" where
  "minusTime (Some x) (Some y) = Some (x - y)"
| "minusTime None y = None"
| "minusTime x None = None"

definition compareFn ::
  "(string \<Rightarrow> int option) \<Rightarrow> Question \<Rightarrow> Question \<Rightarrow> error + int option" where
  "compareFn getTime a b =
     (case answerTime getTime a of
        Inl e \<Rightarrow> Inl e
      | Inr aTime \<Rightarrow>
          (case answerTime getTime b of
             Inl e \<Rightarrow> Inl e
           | Inr bTime \<Rightarrow> Inr (minusTime aTime bTime)))"

text \<open>What \<open>sort\<close> makes of the comparator's result: \<open>NaN\<close> counts as \<open>+0\<close>.\<close>

fun sortCompare :: "int option \<Rightarrow> int" where
  "sortCompare None = 0"
| "sortCompare (Some v) = v"

text \<open>
  \<open>Array.prototype.sort\<close> with a comparator that may throw, as a stable insertion sort:
  an exception of the comparator ends the sort. The order it yields is the engine's
  where the comparator is consistent, which it is when no time is \<open>NaN\<close>; for a
  comparator that is not, the engine's order is implementation-defined and this sort
  gives one such order.
\<close>

fun insertBy ::
  "('a \<Rightarrow> 'a \<Rightarrow> error + int option) \<Rightarrow> 'a \<Rightarrow> 'a list \<Rightarrow> error + 'a list" where
  "insertBy cmp x [] = Inr [x]"
| "insertBy cmp x (y # ys) =
     (case cmp x y of
        Inl e \<Rightarrow> Inl e
      | Inr c \<Rightarrow>
          if sortCompare c \<le> 0 then Inr (x # y # ys)
          else (case insertBy cmp x ys of Inl e \<Rightarrow> Inl e | Inr zs \<Rightarrow> Inr (y # zs)))"

fun sortBy :: "('a \<Rightarrow> 'a \<Rightarrow> error + int option) \<Rightarrow> 'a list \<Rightarrow> error + 'a list" where
  "sortBy cmp [] = Inr []"
| "sortBy cmp (x # xs) =
     (case sortBy cmp xs of Inl e \<Rightarrow> Inl e | Inr ys \<Rightarrow> insertBy cmp x ys)"

text \<open>\<open>Array.prototype.map\<close> with a callback that may throw.\<close>

fun mapThrowing :: "('a \<Rightarrow> error + 'b) \<Rightarrow> 'a list \<Rightarrow> error + 'b list" where
  "mapThrowing f [] = Inr []"
| "mapThrowing f (x # xs) =
     (case f x of
        Inl e \<Rightarrow> Inl e
      | Inr y \<Rightarrow> (case mapThrowing f xs of Inl e \<Rightarrow> Inl e | Inr ys \<Rightarrow> Inr (y # ys)))"

text \<open>\<open>Array.prototype.join\<close>.\<close>

fun join :: "string \<Rightarrow> string list \<Rightarrow> string" where
  "join sep [] = []"
| "join sep [x] = x"
| "join sep (x # y # ys) = x @ sep @ join sep (y # ys)"

definition newline :: string where
  "newline = [CHR 0x0A]"

text \<open>The template \<open>`Q: ${q.question}\nA: ${q.answers[q.answers.length - 1].answer}`\<close>.\<close>

definition historyLine :: "Question \<Rightarrow> error + string" where
  "historyLine q =
     (case lastAnswerProp answer q of
        Inl e \<Rightarrow> Inl e
      | Inr a \<Rightarrow> Inr (''Q: '' @ question q @ newline @ ''A: '' @ a))"

text \<open>The chain \<open>.filter(...).sort(...).map(...).join('\n\n')\<close> of the handler.\<close>

definition conversationHistory ::
  "(string \<Rightarrow> int option) \<Rightarrow> Question list \<Rightarrow> error + string" where
  "conversationHistory getTime answeredQuestions =
     (case sortBy (compareFn getTime) (filter (\<lambda>q. status q = answered) answeredQuestions) of
        Inl e \<Rightarrow> Inl e
      | Inr sortedQuestions \<Rightarrow>
          (case mapThrowing historyLine sortedQuestions of
             Inl e \<Rightarrow> Inl e
           | Inr lines \<Rightarrow> Inr (join (newline @ newline) lines)))"

text \<open>The request: its method (\<open>method'\<close> is the source's \<open>req.method\<close>) and the two fields read from its body.\<close>

record Request =
  method' :: string
  answeredQuestions :: "Question list optional"
  currentLevel :: "string optional"

text \<open>The response: the HTTP status and \<open>error\<close> or \<open>question\<close> of the JSON body.\<close>

type_synonym Response = "nat \<times> string"

text \<open>
  The handler. \<open>generateContent level history\<close> stands for the text the language model
  returns for the prompt built from \<open>currentLevel\<close> and \<open>conversationHistory\<close>, and
  \<open>trim\<close> for the engine's \<open>String.prototype.trim\<close>; every exception inside \<open>try\<close>
  becomes the response 500.
\<close>

definition handler ::
  "(string \<Rightarrow> int option) \<Rightarrow> (string \<Rightarrow> string \<Rightarrow> error + string) \<Rightarrow> (string \<Rightarrow> string)
   \<Rightarrow> Request \<Rightarrow> Response" where
  "handler getTime generateContent trim req =
     (if method' req \<noteq> ''POST'' then (405, ''Method not allowed'')
      else (case answeredQuestions req of
              Absent \<Rightarrow> (400, ''Missing required fields'')
            | Undefined \<Rightarrow> (400, ''Missing required fields'')
            | Value qs \<Rightarrow>
                if \<not> truthy (currentLevel req) then (400, ''Missing required fields'')
                else (case conversationHistory getTime qs of
                        Inl e \<Rightarrow> (500, ''Failed to generate question'')
                      | Inr history \<Rightarrow>
                          (case generateContent (nullish (currentLevel req) []) history of
                             Inl e \<Rightarrow> (500, ''Failed to generate question'')
                           | Inr text \<Rightarrow>
                               if text = [] then (500, ''Failed to generate question'')
                               else (200, trim text)))))"

section \<open>Lifecycle controller (src/App.tsx, components/QuestionCard.tsx, services/ai.ts)\<close>

record ValidationResponse =
  correct :: bool
  mistakes_v :: string
  explanation_v :: string

text \<open>
  \<open>validateAnswer\<close> of services/ai.ts. \<open>post question answer\<close> stands for the JSON the
  endpoint \<open>/validate-answer\<close> answers, or the error thrown when the response is not ok.
\<close>

definition validateAnswer ::
  "(string \<Rightarrow> string \<Rightarrow> error + ValidationResponse) \<Rightarrow> string \<Rightarrow> string \<Rightarrow> error + ValidationResponse" where
  "validateAnswer post q a =
     (case post q a of
        Inl e \<Rightarrow> Inl e
      | Inr data \<Rightarrow>
          Inr \<lparr> correct = correct data,
                mistakes_v = orElse (Value (mistakes_v data)) ''none'',
                explanation_v = explanation_v data \<rparr>)"

text \<open>
  The state of \<open>App\<close> that \<open>handleAnswer\<close> reads and sets: the signed-in user's uid
  (\<open>None\<close>: signed out), the loaded document, and the in-flight marker.
\<close>

record AppState =
  user :: "string option"
  userDoc :: "UserDocument option"
  validatingQuestionId :: "string option"

text \<open>\<open>question.answers || []\<close>.\<close>

definition existingAnswers :: "Question \<Rightarrow> Answer list" where
  "existingAnswers q =
     (case answers q of
        AnswersArray as \<Rightarrow> as
      | AnswersAbsent \<Rightarrow> []
      | AnswersUndefined \<Rightarrow> []
      | AnswersNull \<Rightarrow> [])"

text \<open>The \<open>finally\<close> block: \<open>setValidatingQuestionId(null)\<close>.\<close>

definition finish :: "AppState \<Rightarrow> AppState" where
  "finish st = st\<lparr>validatingQuestionId := None\<rparr>"

text \<open>The object literal \<open>newAnswer\<close> of \<open>handleAnswer\<close>; \<open>now\<close> is \<open>new Date().toISOString()\<close>.\<close>

definition newAnswer :: "string \<Rightarrow> ValidationResponse \<Rightarrow> string \<Rightarrow> Answer" where
  "newAnswer answerText validation now =
     \<lparr> answer = answerText,
       isCorrect = correct validation,
       mistakes = mistakes_v validation,
       explanation = explanation_v validation,
       answeredAt = now \<rparr>"

text \<open>
  The updates \<open>handleAnswer\<close> passes to \<open>updateQuestion\<close>:
  \<open>{ answers: [...existingAnswers, newAnswer],
      status: existingAnswers.length === 0 ? 'answered' : question.status }\<close>.
\<close>

definition answerUpdates :: "Question \<Rightarrow> Answer \<Rightarrow> QuestionUpdates" where
  "answerUpdates q a =
     \<lparr> id_u = Absent,
       status_u = Value (if existingAnswers q = [] then answered else status q),
       question_u = Absent,
       answers_u = Value (existingAnswers q @ [a]),
       questionExplanation_u = Absent,
       contextConversation_u = Absent,
       askedAt_u = Absent \<rparr>"

text \<open>
  \<open>handleAnswer\<close>. \<open>now\<close> is the instant stamped on the answer, \<open>now'\<close> the instant
  \<open>markQuestionAnswered\<close> reads. The result is the store, the state of \<open>App\<close>, and the
  calls made to the validation service (question text, answer text). An exception is
  caught and logged: the function ends with what was written until then.
\<close>

definition handleAnswer ::
  "(string \<Rightarrow> string \<Rightarrow> error + ValidationResponse) \<Rightarrow> string \<Rightarrow> string \<Rightarrow> string \<Rightarrow> string
   \<Rightarrow> Firestore \<times> AppState \<Rightarrow> Firestore \<times> AppState \<times> (string \<times> string) list" where
  "handleAnswer post now now' questionId answerText w =
     (case w of (fs, st) \<Rightarrow>
      (case (user st, userDoc st) of
         (None, _) \<Rightarrow> (fs, st, [])
       | (Some uid, None) \<Rightarrow> (fs, st, [])
       | (Some uid, Some doc) \<Rightarrow>
           if validatingQuestionId st \<noteq> None \<and> validatingQuestionId st \<noteq> Some []
           then (fs, st, [])
           else
             (case find (\<lambda>q. id' q = questionId) (questions doc) of
                None \<Rightarrow> (fs, finish st, [])
              | Some q \<Rightarrow>
                  (let calls = [(question q, answerText)] in
                   case validateAnswer post (question q) answerText of
                     Inl e \<Rightarrow> (fs, finish st, calls)
                   | Inr validation \<Rightarrow>
                       (case updateQuestion uid questionId
                               (answerUpdates q (newAnswer answerText validation now)) fs of
                          (Inl e, fs1) \<Rightarrow> (fs1, finish st, calls)
                        | (Inr _, fs1) \<Rightarrow>
                            (case (if existingAnswers q = []
                                   then markQuestionAnswered uid questionId now' fs1
                                   else (Inr (), fs1)) of
                               (Inl e, fs2) \<Rightarrow> (fs2, finish st, calls)
                             | (Inr _, fs2) \<Rightarrow>
                                 (case getUserDocument uid fs2 of
                                    (Inl e, fs3) \<Rightarrow> (fs3, finish st, calls)
                                  | (Inr updatedDoc, fs3) \<Rightarrow>
                                      (fs3, finish (st\<lparr>userDoc := updatedDoc\<rparr>), calls))))))))"

text \<open>
  \<open>QuestionCard\<close>: the first answer form is rendered when
  \<open>!question.answers || question.answers.length === 0\<close>.
\<close>

definition answerFormRendered :: "Question \<Rightarrow> bool" where
  "answerFormRendered q =
     (case answers q of
        AnswersArray as \<Rightarrow> as = []
      | AnswersAbsent \<Rightarrow> True
      | AnswersUndefined \<Rightarrow> True
      | AnswersNull \<Rightarrow> True)"

text \<open>
  The "Try Again" form is rendered when \<open>question.answers && question.answers.length > 0\<close>
  and \<open>!question.answers.some(a => a.isCorrect)\<close>.
\<close>

definition tryAgainFormRendered :: "Question \<Rightarrow> bool" where
  "tryAgainFormRendered q =
     (case answers q of
        AnswersArray as \<Rightarrow> as \<noteq> [] \<and> \<not> list_ex isCorrect as
      | AnswersAbsent \<Rightarrow> False
      | AnswersUndefined \<Rightarrow> False
      | AnswersNull \<Rightarrow> False)"

text \<open>
  \<open>handleSubmit\<close> of the card, with \<open>onAnswer\<close> bound to \<open>handleAnswer\<close> as \<open>App\<close> binds
  it; \<open>answerInput\<close> is the text of the card's textarea (its state \<open>answer\<close>), and \<open>trim\<close>
  stands for the engine's \<open>String.prototype.trim\<close>.
\<close>

definition handleSubmit ::
  "(string \<Rightarrow> string) \<Rightarrow> (string \<Rightarrow> string \<Rightarrow> error + ValidationResponse) \<Rightarrow> string \<Rightarrow> string
   \<Rightarrow> Question \<Rightarrow> string
   \<Rightarrow> Firestore \<times> AppState \<Rightarrow> Firestore \<times> AppState \<times> (string \<times> string) list" where
  "handleSubmit trim post now now' q answerInput w =
     (if trim answerInput \<noteq> []
      then handleAnswer post now now' (id' q) (trim answerInput) w
      else (fst w, snd w, []))"

text \<open>
  Submit-Answer: the submit event of the card of question \<open>q\<close>. Both forms have
  \<open>onSubmit={handleSubmit}\<close>; a card that renders neither form has nothing to submit.
\<close>

definition submitAnswer ::
  "(string \<Rightarrow> string) \<Rightarrow> (string \<Rightarrow> string \<Rightarrow> error + ValidationResponse) \<Rightarrow> string \<Rightarrow> string
   \<Rightarrow> Question \<Rightarrow> string
   \<Rightarrow> Firestore \<times> AppState \<Rightarrow> Firestore \<times> AppState \<times> (string \<times> string) list" where
  "submitAnswer trim post now now' q answerInput w =
     (if answerFormRendered q \<or> tryAgainFormRendered q
      then handleSubmit trim post now now' q answerInput w
      else (fst w, snd w, []))"

section \<open>Notions used in the statements\<close>

text \<open>
  The document a read of \<open>uid\<close> yields: the initial document when none is stored, the
  migrated one otherwise (lemma \<open>getUserDocument_eq\<close> below).
\<close>

definition loadedDoc :: "Firestore \<Rightarrow> string \<Rightarrow> UserDocument" where
  "loadedDoc fs uid =
     (case docs fs uid of None \<Rightarrow> initialDoc | Some raw \<Rightarrow> migrateUserDocument raw)"

text \<open>\<open>userDoc.dailyQuestions || {}\<close> and \<open>dailyQuestions[today] || { ... }\<close>.\<close>

definition dailyOf :: "UserDocument \<Rightarrow> DailyQuestions" where
  "dailyOf d = (case dailyQuestions d of None \<Rightarrow> Map.empty | Some m \<Rightarrow> m)"

definition dayOf :: "UserDocument \<Rightarrow> string \<Rightarrow> DailyRecord" where
  "dayOf d date = (case dailyOf d date of None \<Rightarrow> emptyDay | Some r \<Rightarrow> r)"

text \<open>The daily record of \<open>date\<close> in the document of \<open>uid\<close>, as a read yields it.\<close>

definition ledger :: "Firestore \<Rightarrow> string \<Rightarrow> string \<Rightarrow> DailyRecord" where
  "ledger fs uid date = dayOf (loadedDoc fs uid) date"

text \<open>\<open>if (!ids.includes(x)) ids.push(x)\<close>.\<close>

definition pushNew :: "string \<Rightarrow> string list \<Rightarrow> string list" where
  "pushNew x xs = (if x \<notin> set xs then xs @ [x] else xs)"

text \<open>
  For the statements about the handler: a question has a last answer when \<open>answers\<close> is
  a non-empty array; its time is then the one the comparator computes (\<open>None\<close>: \<open>NaN\<close>),
  and it is sortable when that time is a number.
\<close>

definition hasAnswer :: "Question \<Rightarrow> bool" where
  "hasAnswer q =
     (case answers q of
        AnswersArray as \<Rightarrow> as \<noteq> []
      | AnswersAbsent \<Rightarrow> False
      | AnswersUndefined \<Rightarrow> False
      | AnswersNull \<Rightarrow> False)"

definition latestTime :: "(string \<Rightarrow> int option) \<Rightarrow> Question \<Rightarrow> int option" where
  "latestTime getTime q =
     (if answeredAt (last (existingAnswers q)) \<noteq> []
      then getTime (answeredAt (last (existingAnswers q)))
      else Some 0)"

definition sortable :: "(string \<Rightarrow> int option) \<Rightarrow> Question \<Rightarrow> bool" where
  "sortable getTime q = (hasAnswer q \<and> latestTime getTime q \<noteq> None)"

definition sortKey :: "(string \<Rightarrow> int option) \<Rightarrow> Question \<Rightarrow> int" where
  "sortKey getTime q = sortCompare (latestTime getTime q)"

text \<open>
  The state \<open>App\<close> is in between two operations of one client: signed in, the loaded
  document is the stored one (every operation ends with \<open>setUserDoc(await
  getUserDocument(uid))\<close>, which leaves no legacy entry), no validation in flight, and
  the question ids are unique, as the data model has them.
\<close>

definition ready :: "Firestore \<Rightarrow> AppState \<Rightarrow> string \<Rightarrow> UserDocument \<Rightarrow> bool" where
  "ready fs st uid doc =
     (user st = Some uid \<and> userDoc st = Some doc \<and> docs fs uid = Some doc
      \<and> validatingQuestionId st = None
      \<and> list_all (\<lambda>q. \<not> isQuestionV1 q) (questions doc)
      \<and> distinct (map id' (questions doc)))"

section \<open>Example inputs\<close>

text \<open>
  The legacy entry of the specification's losslessness example: \<open>answer = "goed"\<close>,
  \<open>answeredAt = T\<close>, \<open>isCorrect = true\<close>, no \<open>answers\<close> key.
\<close>

definition legacyGoed :: Question where
  "legacyGoed =
     \<lparr> id' = ''1'', status = answered, question = ''Hoe gaat het?'',
       answers = AnswersAbsent,
       questionExplanation = Absent, contextConversation = Absent, askedAt = Absent,
       answerV1 = Value ''goed'', isCorrectV1 = Value True, mistakesV1 = Absent,
       explanationV1 = Absent, answeredAtV1 = Value ''2024-01-01T10:00:00.000Z'' \<rparr>"

text \<open>The same entry with \<open>answer = ""\<close>, and with \<open>mistakes = ""\<close>.\<close>

definition legacyEmptyAnswer :: Question where
  "legacyEmptyAnswer = legacyGoed\<lparr>answerV1 := Value []\<rparr>"

definition legacyEmptyMistakes :: Question where
  "legacyEmptyMistakes = legacyGoed\<lparr>mistakesV1 := Value []\<rparr>"

text \<open>A store whose one document holds the legacy entry, and a store with no document.\<close>

definition legacyStore :: Firestore where
  "legacyStore =
     \<lparr> docs = [''u1'' \<mapsto> \<lparr>questions = [legacyGoed], dailyQuestions = None, level = ''a0''\<rparr>],
       writes = [] \<rparr>"

definition emptyStore :: Firestore where
  "emptyStore = \<lparr> docs = Map.empty, writes = [] \<rparr>"

text \<open>A current-shaped question that was asked and not answered, and a store with two.\<close>

definition currentQ :: "string \<Rightarrow> Question" where
  "currentQ i =
     \<lparr> id' = i, status = asked, question = ''Wat is dit?'',
       answers = AnswersArray [],
       questionExplanation = Absent, contextConversation = Value ''oud'', askedAt = Absent,
       answerV1 = Absent, isCorrectV1 = Absent, mistakesV1 = Absent,
       explanationV1 = Absent, answeredAtV1 = Absent \<rparr>"

definition twoQuestionStore :: Firestore where
  "twoQuestionStore =
     \<lparr> docs = [''u1'' \<mapsto> \<lparr>questions = [currentQ ''1'', currentQ ''2''],
                              dailyQuestions = Some Map.empty, level = ''a0''\<rparr>],
       writes = [] \<rparr>"

text \<open>
  An answered question with one answer (the migrated legacy entry), and one whose
  \<open>answers\<close> is the empty array, as \<open>migrateQuestion\<close> leaves a legacy entry with
  \<open>status = 'answered'\<close> and no legacy answer.
\<close>

definition answeredGoed :: Question where
  "answeredGoed = migrateQuestion legacyGoed"

definition answeredNoAnswers :: Question where
  "answeredNoAnswers = (currentQ ''2'')\<lparr>status := answered\<rparr>"

text \<open>
  \<open>App\<close> with the document of \<open>twoQuestionStore\<close> loaded, and with a document loaded whose
  one question has a correct answer; a validation service that finds every answer
  correct.
\<close>

definition twoDoc :: UserDocument where
  "twoDoc = \<lparr>questions = [currentQ ''1'', currentQ ''2''],
             dailyQuestions = Some Map.empty, level = ''a0''\<rparr>"

definition readyApp :: AppState where
  "readyApp = \<lparr> user = Some ''u1'', userDoc = Some twoDoc, validatingQuestionId = None \<rparr>"

definition goedDoc :: UserDocument where
  "goedDoc = \<lparr>questions = [answeredGoed], dailyQuestions = Some Map.empty, level = ''a0''\<rparr>"

definition goedStore :: Firestore where
  "goedStore = \<lparr> docs = [''u1'' \<mapsto> goedDoc], writes = [] \<rparr>"

definition goedApp :: AppState where
  "goedApp = \<lparr> user = Some ''u1'', userDoc = Some goedDoc, validatingQuestionId = None \<rparr>"

definition postCorrect :: "string \<Rightarrow> string \<Rightarrow> error + ValidationResponse" where
  "postCorrect q a = Inr \<lparr> correct = True, mistakes_v = [], explanation_v = ''Goed zo'' \<rparr>"

text \<open>
  A question answered once, incorrectly, and \<open>App\<close> with a document loaded that holds it
  and a second question.
\<close>

definition wrongAnswer :: Answer where
  "wrongAnswer = \<lparr> answer = ''Dit zijn boek'', isCorrect = False, mistakes = ''zijn'',
                   explanation = ''Het is: dit is een boek'',
                   answeredAt = ''2024-01-01T09:00:00.000Z'' \<rparr>"

definition triedQ :: Question where
  "triedQ = (currentQ ''1'')\<lparr>status := answered, answers := AnswersArray [wrongAnswer]\<rparr>"

definition triedDoc :: UserDocument where
  "triedDoc = \<lparr>questions = [triedQ, currentQ ''2''],
               dailyQuestions = Some Map.empty, level = ''a0''\<rparr>"

definition triedStore :: Firestore where
  "triedStore = \<lparr> docs = [''u1'' \<mapsto> triedDoc], writes = [] \<rparr>"

definition triedApp :: AppState where
  "triedApp = \<lparr> user = Some ''u1'', userDoc = Some triedDoc, validatingQuestionId = None \<rparr>"

section \<open>Properties of the migration\<close>

lemma isQuestionV1_migrateQuestion: "isQuestionV1 (migrateQuestion q) = False"
  by (simp add: migrateQuestion_def copyOptional_def freshQuestion_def Let_def
      split: AnswersField.splits)

lemma migrateQuestion_current: "\<not> isQuestionV1 q \<Longrightarrow> migrateQuestion q = q"
  by (simp add: migrateQuestion_def)

lemma migrateQuestion_idem: "migrateQuestion (migrateQuestion q) = migrateQuestion q"
  by (rule migrateQuestion_current) (simp only: isQuestionV1_migrateQuestion simp_thms)

lemma map_migrateQuestion_current:
  "\<not> list_ex isQuestionV1 qs \<Longrightarrow> map migrateQuestion qs = qs"
  by (intro map_idI) (auto simp: list_ex_iff migrateQuestion_current simp del: isQuestionV1.simps)

lemma no_legacy_after_migration: "\<not> list_ex isQuestionV1 (map migrateQuestion qs)"
  by (simp add: list_ex_iff isQuestionV1_migrateQuestion del: isQuestionV1.simps)

text \<open>
  C2, as amended. The claim reads "both present"; \<open>migrateQuestion\<close> tests
  \<open>oldQuestion.answer && oldQuestion.answeredAt\<close>, so the one Answer record is synthesized
  for a legacy entry whose \<open>answer\<close> and \<open>answeredAt\<close> are both non-empty strings. It
  carries the legacy \<open>answer\<close> and \<open>answeredAt\<close>; \<open>isCorrect\<close> is the legacy value or
  \<open>false\<close> when absent; \<open>mistakes\<close> is the legacy value or \<open>"none"\<close> when absent or empty;
  \<open>explanation\<close> is the legacy value or \<open>""\<close> when absent.
\<close>

theorem migrateQuestion_synthesizes_answer:
  assumes "isQuestionV1 q"
    and "answerV1 q = Value a" and "a \<noteq> []"
    and "answeredAtV1 q = Value t" and "t \<noteq> []"
  shows "answers (migrateQuestion q) =
     AnswersArray [\<lparr> answer = a,
        isCorrect = (case isCorrectV1 q of Value b \<Rightarrow> b | Absent \<Rightarrow> False | Undefined \<Rightarrow> False),
        mistakes = (case mistakesV1 q of Value m \<Rightarrow> (if m = [] then ''none'' else m)
                    | Absent \<Rightarrow> ''none'' | Undefined \<Rightarrow> ''none''),
        explanation = (case explanationV1 q of Value e \<Rightarrow> e | Absent \<Rightarrow> [] | Undefined \<Rightarrow> []),
        answeredAt = t \<rparr>]"
  using assms
  by (simp add: migrateQuestion_def copyOptional_def freshQuestion_def migratedAnswer_def
      orElse_def Let_def split: optional.splits)

text \<open>
  The specification's example, through the theorem: the legacy entry with
  \<open>answer = "goed"\<close>, \<open>answeredAt = T\<close>, \<open>isCorrect = true\<close> migrates to the one answer
  \<open>{answer: "goed", answeredAt: T, isCorrect: true, mistakes: "none", explanation: ""}\<close>.
\<close>

theorem migrateQuestion_synthesizes_answer_witness:
  "answers (migrateQuestion legacyGoed) =
     AnswersArray [\<lparr> answer = ''goed'', isCorrect = True, mistakes = ''none'', explanation = [],
        answeredAt = ''2024-01-01T10:00:00.000Z'' \<rparr>]"
  using migrateQuestion_synthesizes_answer
    [of legacyGoed "''goed''" "''2024-01-01T10:00:00.000Z''"]
  by (simp add: legacyGoed_def)

text \<open>
  C2 as stated fails: in \<open>legacyEmptyAnswer\<close> the legacy \<open>answer\<close> and \<open>answeredAt\<close> are
  both present, and the migrated entry has no answer; in \<open>legacyEmptyMistakes\<close> the
  legacy \<open>mistakes\<close> is present (the empty string), and the migrated answer has
  \<open>mistakes = "none"\<close>.
\<close>

theorem migrateQuestion_present_but_empty:
  "isQuestionV1 legacyEmptyAnswer
   \<and> answerV1 legacyEmptyAnswer = Value []
   \<and> answeredAtV1 legacyEmptyAnswer = Value ''2024-01-01T10:00:00.000Z''
   \<and> answers (migrateQuestion legacyEmptyAnswer) = AnswersArray []
   \<and> isQuestionV1 legacyEmptyMistakes
   \<and> mistakesV1 legacyEmptyMistakes = Value []
   \<and> answers (migrateQuestion legacyEmptyMistakes) =
       AnswersArray [\<lparr> answer = ''goed'', isCorrect = True, mistakes = ''none'', explanation = [],
         answeredAt = ''2024-01-01T10:00:00.000Z'' \<rparr>]"
  by (simp add: legacyEmptyAnswer_def legacyEmptyMistakes_def legacyGoed_def migrateQuestion_def
      copyOptional_def freshQuestion_def migratedAnswer_def orElse_def)

text \<open>
  C3. Migration is idempotent: a document whose questions are all current-shaped is
  returned unchanged; migrating twice is migrating once; the migrated document has no
  legacy-shaped entry.
\<close>

theorem migrateUserDocument_idempotent:
  "(\<not> list_ex isQuestionV1 (questions doc) \<longrightarrow> migrateUserDocument doc = doc)
   \<and> migrateUserDocument (migrateUserDocument doc) = migrateUserDocument doc
   \<and> \<not> list_ex isQuestionV1 (questions (migrateUserDocument doc))"
proof (intro conjI impI)
  assume "\<not> list_ex isQuestionV1 (questions doc)"
  then have "map migrateQuestion (questions doc) = questions doc"
    by (rule map_migrateQuestion_current)
  then show "migrateUserDocument doc = doc"
    by (simp add: migrateUserDocument_def)
next
  show "migrateUserDocument (migrateUserDocument doc) = migrateUserDocument doc"
    by (simp add: migrateUserDocument_def migrateQuestion_idem del: isQuestionV1.simps)
next
  show "\<not> list_ex isQuestionV1 (questions (migrateUserDocument doc))"
    by (simp add: migrateUserDocument_def no_legacy_after_migration del: isQuestionV1.simps)
qed

theorem migrateUserDocument_idempotent_witness:
  "\<not> list_ex isQuestionV1
       (questions (migrateUserDocument
          \<lparr>questions = [legacyGoed], dailyQuestions = None, level = ''a0''\<rparr>))
   \<and> migrateUserDocument (migrateUserDocument
          \<lparr>questions = [legacyGoed], dailyQuestions = None, level = ''a0''\<rparr>)
      = migrateUserDocument \<lparr>questions = [legacyGoed], dailyQuestions = None, level = ''a0''\<rparr>
   \<and> questions (migrateUserDocument
          \<lparr>questions = [legacyGoed], dailyQuestions = None, level = ''a0''\<rparr>)
      = [\<lparr> id' = ''1'', status = answered, question = ''Hoe gaat het?'',
           answers = AnswersArray [\<lparr>answer = ''goed'', isCorrect = True, mistakes = ''none'',
                                    explanation = [], answeredAt = ''2024-01-01T10:00:00.000Z''\<rparr>],
           questionExplanation = Absent, contextConversation = Absent, askedAt = Absent,
           answerV1 = Absent, isCorrectV1 = Absent, mistakesV1 = Absent,
           explanationV1 = Absent, answeredAtV1 = Absent \<rparr>]"
  using migrateUserDocument_idempotent
    [of "migrateUserDocument \<lparr>questions = [legacyGoed], dailyQuestions = None, level = ''a0''\<rparr>"]
  by (simp add: migrateUserDocument_def migrateQuestion_def legacyGoed_def copyOptional_def
      freshQuestion_def migratedAnswer_def orElse_def)

text \<open>
  C10. Migration tests the legacy \<open>answer\<close> and \<open>answeredAt\<close> by truthiness: a legacy
  entry whose \<open>answer\<close> or \<open>answeredAt\<close> is the empty string migrates to an entry with
  an empty \<open>answers\<close> sequence, and its legacy \<open>answer\<close>, \<open>isCorrect\<close>, \<open>mistakes\<close>,
  \<open>explanation\<close> and \<open>answeredAt\<close> are not carried over, present though they are.
\<close>

theorem migrateQuestion_truthiness:
  assumes "isQuestionV1 q" and "answerV1 q = Value [] \<or> answeredAtV1 q = Value []"
  shows "answers (migrateQuestion q) = AnswersArray []
    \<and> answerV1 (migrateQuestion q) = Absent
    \<and> isCorrectV1 (migrateQuestion q) = Absent
    \<and> mistakesV1 (migrateQuestion q) = Absent
    \<and> explanationV1 (migrateQuestion q) = Absent
    \<and> answeredAtV1 (migrateQuestion q) = Absent"
  using assms
  by (auto simp add: migrateQuestion_def copyOptional_def freshQuestion_def Let_def)

theorem migrateQuestion_truthiness_witness:
  "migrateQuestion (legacyGoed\<lparr>answeredAtV1 := Value []\<rparr>)
     = \<lparr> id' = ''1'', status = answered, question = ''Hoe gaat het?'',
         answers = AnswersArray [],
         questionExplanation = Absent, contextConversation = Absent, askedAt = Absent,
         answerV1 = Absent, isCorrectV1 = Absent, mistakesV1 = Absent,
         explanationV1 = Absent, answeredAtV1 = Absent \<rparr>
   \<and> answers (migrateQuestion (legacyGoed\<lparr>answeredAtV1 := Value []\<rparr>)) = AnswersArray []
   \<and> isCorrectV1 (migrateQuestion (legacyGoed\<lparr>answeredAtV1 := Value []\<rparr>)) = Absent"
  using migrateQuestion_truthiness [of "legacyGoed\<lparr>answeredAtV1 := Value []\<rparr>"]
  by (simp add: legacyGoed_def migrateQuestion_def copyOptional_def freshQuestion_def)

section \<open>Properties of the repository\<close>

lemmas repository_defs =
  getUserDocument_def getDoc_def setDoc_def updateDoc_def applyUpdates_def await_def
  updateUserDocument_def removeUndefined_doc_def addQuestion_def updateQuestion_def
  markQuestionAsked_def markQuestionAnswered_def initialDoc_def emptyDay_def
  migrateUserDocument_def migrateQuestion_def copyOptional_def freshQuestion_def
  migratedAnswer_def orElse_def removeUndefined_updates_def removeUndefined_question_def
  spread_def getTodayDate_def

lemma migrateUserDocument_update:
  "migrateUserDocument raw = raw\<lparr>questions := map migrateQuestion (questions raw)\<rparr>"
  by (cases raw) (simp add: migrateUserDocument_def)

lemma getUserDocument_absent:
  "docs fs uid = None \<Longrightarrow>
   getUserDocument uid fs =
     (Inr (Some initialDoc),
      fs\<lparr>docs := (docs fs)(uid \<mapsto> initialDoc), writes := writes fs @ [SetDoc uid initialDoc]\<rparr>)"
  by (simp add: getUserDocument_def getDoc_def await_def setDoc_def)

lemma getUserDocument_current:
  "docs fs uid = Some raw \<Longrightarrow> \<not> list_ex isQuestionV1 (questions raw) \<Longrightarrow>
   getUserDocument uid fs = (Inr (Some raw), fs)"
  by (simp add: getUserDocument_def getDoc_def Let_def migrateUserDocument_def
      map_migrateQuestion_current del: isQuestionV1.simps)

lemma getUserDocument_legacy:
  "docs fs uid = Some raw \<Longrightarrow> list_ex isQuestionV1 (questions raw) \<Longrightarrow>
   getUserDocument uid fs =
     (Inr (Some (migrateUserDocument raw)),
      fs\<lparr>docs := (docs fs)(uid \<mapsto> migrateUserDocument raw),
         writes := writes fs @
           [UpdateDoc uid \<lparr> questions_u = Value (map migrateQuestion (questions raw)),
                             dailyQuestions_u = Absent, level_u = Absent \<rparr>]\<rparr>)"
  by (simp add: getUserDocument_def getDoc_def Let_def await_def updateDoc_def
      applyUpdates_def migrateUserDocument_update del: isQuestionV1.simps)

text \<open>A read never yields \<open>null\<close> and never throws; it leaves the document it returns.\<close>

lemma getUserDocument_loaded:
  obtains fs1 where "getUserDocument uid fs = (Inr (Some (loadedDoc fs uid)), fs1)"
    and "docs fs1 = (docs fs)(uid \<mapsto> loadedDoc fs uid)"
proof (cases "docs fs uid")
  case None
  then show ?thesis
    using that getUserDocument_absent [OF None] by (simp add: loadedDoc_def)
next
  case (Some raw)
  show ?thesis
  proof (cases "list_ex isQuestionV1 (questions raw)")
    case True
    then show ?thesis
      using that getUserDocument_legacy [OF Some True] Some by (simp add: loadedDoc_def)
  next
    case False
    have "migrateUserDocument raw = raw"
      using False
      by (simp add: migrateUserDocument_def map_migrateQuestion_current del: isQuestionV1.simps)
    moreover have "(docs fs)(uid \<mapsto> raw) = docs fs"
      using Some by (simp add: fun_upd_idem)
    ultimately show ?thesis
      using that [of fs] getUserDocument_current [OF Some False] Some by (simp add: loadedDoc_def)
  qed
qed

lemma getUserDocument_eq:
  "getUserDocument uid fs = (Inr (Some (loadedDoc fs uid)), snd (getUserDocument uid fs))"
  by (rule getUserDocument_loaded [of uid fs]) simp

lemma getUserDocument_docs:
  "docs (snd (getUserDocument uid fs)) = (docs fs)(uid \<mapsto> loadedDoc fs uid)"
  by (rule getUserDocument_loaded [of uid fs]) simp

lemma loadedDoc_current: "\<not> list_ex isQuestionV1 (questions (loadedDoc fs uid))"
  by (simp add: loadedDoc_def initialDoc_def migrateUserDocument_def no_legacy_after_migration
      split: option.splits del: isQuestionV1.simps)

lemma updateDoc_questions:
  "docs fs uid = Some d \<Longrightarrow>
   updateDoc uid \<lparr> questions_u = Value qs, dailyQuestions_u = Absent, level_u = Absent \<rparr> fs =
     (Inr (), fs\<lparr>docs := (docs fs)(uid \<mapsto> d\<lparr>questions := qs\<rparr>),
                 writes := writes fs @ [UpdateDoc uid \<lparr> questions_u = Value qs,
                                          dailyQuestions_u = Absent, level_u = Absent \<rparr>]\<rparr>)"
  by (simp add: updateDoc_def applyUpdates_def)

lemma updateDoc_dailyQuestions:
  "docs fs uid = Some d \<Longrightarrow>
   updateDoc uid \<lparr> questions_u = Absent, dailyQuestions_u = Value m, level_u = Absent \<rparr> fs =
     (Inr (), fs\<lparr>docs := (docs fs)(uid \<mapsto> d\<lparr>dailyQuestions := Some m\<rparr>),
                 writes := writes fs @ [UpdateDoc uid \<lparr> questions_u = Absent,
                                          dailyQuestions_u = Value m, level_u = Absent \<rparr>]\<rparr>)"
  by (simp add: updateDoc_def applyUpdates_def)

lemma addQuestion_eq:
  "addQuestion uid q fs =
     updateDoc uid \<lparr> questions_u = Value (questions (loadedDoc fs uid) @ [q]),
                     dailyQuestions_u = Absent, level_u = Absent \<rparr>
       (snd (getUserDocument uid fs))"
  by (subst addQuestion_def, subst await_def, subst getUserDocument_eq)
     (simp add: updateUserDocument_def removeUndefined_doc_def)

lemma addQuestion_result:
  "fst (addQuestion uid q fs) = Inr ()"
  "docs (snd (addQuestion uid q fs)) =
     (docs fs)(uid \<mapsto> (loadedDoc fs uid)\<lparr>questions := questions (loadedDoc fs uid) @ [q]\<rparr>)"
  by (simp_all add: addQuestion_eq updateDoc_questions [where d = "loadedDoc fs uid"]
      getUserDocument_docs)

lemma updateQuestion_eq:
  "updateQuestion uid questionId updates fs =
     updateDoc uid
       \<lparr> questions_u = Value
           (map (\<lambda>q. if id' q = questionId
                      then removeUndefined_question (spread q (removeUndefined_updates updates))
                      else q)
              (questions (loadedDoc fs uid))),
         dailyQuestions_u = Absent, level_u = Absent \<rparr>
       (snd (getUserDocument uid fs))"
  by (subst updateQuestion_def, subst await_def, subst getUserDocument_eq)
     (simp add: updateUserDocument_def removeUndefined_doc_def)

lemma updateQuestion_result:
  "fst (updateQuestion uid questionId updates fs) = Inr ()"
  "docs (snd (updateQuestion uid questionId updates fs)) =
     (docs fs)(uid \<mapsto> (loadedDoc fs uid)\<lparr>questions :=
        map (\<lambda>q. if id' q = questionId
                  then removeUndefined_question (spread q (removeUndefined_updates updates))
                  else q)
          (questions (loadedDoc fs uid))\<rparr>)"
  by (simp_all add: updateQuestion_eq updateDoc_questions [where d = "loadedDoc fs uid"]
      getUserDocument_docs)

lemma markQuestionAsked_eq:
  "markQuestionAsked uid questionId now fs =
     updateDoc uid \<lparr> questions_u = Absent,
        dailyQuestions_u = Value ((dailyOf (loadedDoc fs uid))(getTodayDate now \<mapsto>
           (dayOf (loadedDoc fs uid) (getTodayDate now))\<lparr>askedQuestionIds :=
              pushNew questionId
                (askedQuestionIds (dayOf (loadedDoc fs uid) (getTodayDate now)))\<rparr>)),
        level_u = Absent \<rparr>
       (snd (getUserDocument uid fs))"
  by (subst markQuestionAsked_def, subst await_def, subst getUserDocument_eq)
     (simp add: updateUserDocument_def removeUndefined_doc_def dailyOf_def dayOf_def
       pushNew_def Let_def)

lemma markQuestionAnswered_eq:
  "markQuestionAnswered uid questionId now fs =
     updateDoc uid \<lparr> questions_u = Absent,
        dailyQuestions_u = Value ((dailyOf (loadedDoc fs uid))(getTodayDate now \<mapsto>
           (dayOf (loadedDoc fs uid) (getTodayDate now))\<lparr>answeredQuestionIds :=
              pushNew questionId
                (answeredQuestionIds (dayOf (loadedDoc fs uid) (getTodayDate now)))\<rparr>)),
        level_u = Absent \<rparr>
       (snd (getUserDocument uid fs))"
  by (subst markQuestionAnswered_def, subst await_def, subst getUserDocument_eq)
     (simp add: updateUserDocument_def removeUndefined_doc_def dailyOf_def dayOf_def
       pushNew_def Let_def)

lemma markQuestionAsked_result:
  "fst (markQuestionAsked uid questionId now fs) = Inr ()"
  "docs (snd (markQuestionAsked uid questionId now fs)) =
     (docs fs)(uid \<mapsto> (loadedDoc fs uid)\<lparr>dailyQuestions :=
        Some ((dailyOf (loadedDoc fs uid))(getTodayDate now \<mapsto>
           (dayOf (loadedDoc fs uid) (getTodayDate now))\<lparr>askedQuestionIds :=
              pushNew questionId
                (askedQuestionIds (dayOf (loadedDoc fs uid) (getTodayDate now)))\<rparr>))\<rparr>)"
  by (simp_all add: markQuestionAsked_eq updateDoc_dailyQuestions [where d = "loadedDoc fs uid"]
      getUserDocument_docs)

lemma markQuestionAnswered_result:
  "fst (markQuestionAnswered uid questionId now fs) = Inr ()"
  "docs (snd (markQuestionAnswered uid questionId now fs)) =
     (docs fs)(uid \<mapsto> (loadedDoc fs uid)\<lparr>dailyQuestions :=
        Some ((dailyOf (loadedDoc fs uid))(getTodayDate now \<mapsto>
           (dayOf (loadedDoc fs uid) (getTodayDate now))\<lparr>answeredQuestionIds :=
              pushNew questionId
                (answeredQuestionIds (dayOf (loadedDoc fs uid) (getTodayDate now)))\<rparr>))\<rparr>)"
  by (simp_all add: markQuestionAnswered_eq
      updateDoc_dailyQuestions [where d = "loadedDoc fs uid"] getUserDocument_docs)

lemma dailyOf_migrate: "dailyOf (migrateUserDocument d) = dailyOf d"
  by (simp add: dailyOf_def migrateUserDocument_def)

lemma ledger_after:
  "docs fs' = (docs fs)(uid \<mapsto> d) \<Longrightarrow> ledger fs' uid date = dayOf d date"
  by (simp add: ledger_def loadedDoc_def dayOf_def dailyOf_migrate)

lemma ledger_markQuestionAsked:
  "ledger (snd (markQuestionAsked uid questionId now fs)) uid date =
     (if date = getTodayDate now
      then (ledger fs uid date)\<lparr>askedQuestionIds :=
             pushNew questionId (askedQuestionIds (ledger fs uid date))\<rparr>
      else ledger fs uid date)"
  by (simp add: ledger_after [OF markQuestionAsked_result(2)])
     (simp add: dayOf_def dailyOf_def ledger_def)

lemma ledger_markQuestionAnswered:
  "ledger (snd (markQuestionAnswered uid questionId now fs)) uid date =
     (if date = getTodayDate now
      then (ledger fs uid date)\<lparr>answeredQuestionIds :=
             pushNew questionId (answeredQuestionIds (ledger fs uid date))\<rparr>
      else ledger fs uid date)"
  by (simp add: ledger_after [OF markQuestionAnswered_result(2)])
     (simp add: dayOf_def dailyOf_def ledger_def)

lemma distinct_pushNew: "distinct xs \<Longrightarrow> distinct (pushNew x xs)"
  by (simp add: pushNew_def)

lemma pushNew_idem: "pushNew x (pushNew x xs) = pushNew x xs"
  by (simp add: pushNew_def)

lemma count_pushNew: "count_list xs x \<le> 1 \<Longrightarrow> count_list (pushNew x xs) x = 1"
proof (cases "x \<in> set xs")
  case True
  assume "count_list xs x \<le> 1"
  moreover from True have "count_list xs x \<noteq> 0"
    by (simp add: count_list_0_iff)
  ultimately show ?thesis
    using True by (simp add: pushNew_def)
next
  case False
  then show ?thesis
    by (simp add: pushNew_def count_list_0_iff)
qed

lemma distinct_count_le_1: "distinct xs \<Longrightarrow> count_list xs x \<le> 1"
  by (induction xs) (auto simp: count_list_0_iff)

lemma member_pushNew: "x \<in> set (pushNew x xs)"
  by (simp add: pushNew_def)

lemma dropUndefined_idem: "dropUndefined (dropUndefined x) = dropUndefined x"
  by (cases x) simp_all

lemma dropUndefined_defined: "dropUndefined x \<noteq> Undefined"
  by (cases x) simp_all

lemma removeUndefined_updates_idem:
  "removeUndefined_updates (removeUndefined_updates u) = removeUndefined_updates u"
  by (simp add: removeUndefined_updates_def dropUndefined_idem)

text \<open>
  C5. A read of a stored document with at least one legacy-shaped entry writes the fully
  migrated \<open>questions\<close> sequence back (one \<open>updateDoc\<close>, before the read returns), after
  which the stored document has no legacy entry and a further read writes nothing; a
  read of a document with no legacy entry writes nothing.
\<close>

theorem getUserDocument_write_back:
  "(docs fs uid = Some raw \<and> list_ex isQuestionV1 (questions raw) \<longrightarrow>
      getUserDocument uid fs =
        (Inr (Some (migrateUserDocument raw)),
         fs\<lparr>docs := (docs fs)(uid \<mapsto> migrateUserDocument raw),
            writes := writes fs @
              [UpdateDoc uid \<lparr> questions_u = Value (map migrateQuestion (questions raw)),
                                dailyQuestions_u = Absent, level_u = Absent \<rparr>]\<rparr>)
      \<and> \<not> list_ex isQuestionV1 (map migrateQuestion (questions raw))
      \<and> docs (snd (getUserDocument uid fs)) uid = Some (migrateUserDocument raw)
      \<and> \<not> list_ex isQuestionV1 (questions (migrateUserDocument raw))
      \<and> getUserDocument uid (snd (getUserDocument uid fs)) =
          (Inr (Some (migrateUserDocument raw)), snd (getUserDocument uid fs)))
   \<and> (docs fs uid = Some raw \<and> \<not> list_ex isQuestionV1 (questions raw) \<longrightarrow>
      getUserDocument uid fs = (Inr (Some raw), fs))"
proof (intro conjI impI; elim conjE)
  assume raw: "docs fs uid = Some raw" and legacy: "list_ex isQuestionV1 (questions raw)"
  let ?fs' = "snd (getUserDocument uid fs)"
  show first: "getUserDocument uid fs =
        (Inr (Some (migrateUserDocument raw)),
         fs\<lparr>docs := (docs fs)(uid \<mapsto> migrateUserDocument raw),
            writes := writes fs @
              [UpdateDoc uid \<lparr> questions_u = Value (map migrateQuestion (questions raw)),
                                dailyQuestions_u = Absent, level_u = Absent \<rparr>]\<rparr>)"
    by (rule getUserDocument_legacy [OF raw legacy])
  show "\<not> list_ex isQuestionV1 (map migrateQuestion (questions raw))"
    by (rule no_legacy_after_migration)
  show stored: "docs ?fs' uid = Some (migrateUserDocument raw)"
    by (simp add: first)
  show current: "\<not> list_ex isQuestionV1 (questions (migrateUserDocument raw))"
    by (simp add: migrateUserDocument_def no_legacy_after_migration del: isQuestionV1.simps)
  show "getUserDocument uid ?fs' = (Inr (Some (migrateUserDocument raw)), ?fs')"
    by (rule getUserDocument_current [OF stored current])
next
  assume "docs fs uid = Some raw" and "\<not> list_ex isQuestionV1 (questions raw)"
  then show "getUserDocument uid fs = (Inr (Some raw), fs)"
    by (rule getUserDocument_current)
qed

theorem getUserDocument_write_back_witness:
  "list_ex isQuestionV1 [legacyGoed]
   \<and> writes (snd (getUserDocument ''u1'' legacyStore)) =
       [UpdateDoc ''u1'' \<lparr> questions_u = Value [migrateQuestion legacyGoed],
                            dailyQuestions_u = Absent, level_u = Absent \<rparr>]
   \<and> docs (snd (getUserDocument ''u1'' legacyStore)) ''u1'' =
       Some \<lparr>questions = [migrateQuestion legacyGoed], dailyQuestions = None, level = ''a0''\<rparr>
   \<and> answers (migrateQuestion legacyGoed) =
       AnswersArray [\<lparr>answer = ''goed'', isCorrect = True, mistakes = ''none'',
                      explanation = [], answeredAt = ''2024-01-01T10:00:00.000Z''\<rparr>]
   \<and> getUserDocument ''u1'' (snd (getUserDocument ''u1'' legacyStore)) =
       (Inr (Some \<lparr>questions = [migrateQuestion legacyGoed], dailyQuestions = None,
                    level = ''a0''\<rparr>),
        snd (getUserDocument ''u1'' legacyStore))"
  using getUserDocument_write_back [of legacyStore "''u1''"
      "\<lparr>questions = [legacyGoed], dailyQuestions = None, level = ''a0''\<rparr>"]
  by (simp add: legacyStore_def legacyGoed_def repository_defs)

text \<open>
  C7. \<open>markQuestionAsked\<close> (\<open>markQuestionAnswered\<close>) appends the id to today's
  \<open>askedQuestionIds\<close> (\<open>answeredQuestionIds\<close>) only if it is not a member, and changes no
  other list; so a duplicate-free list stays duplicate-free, and marking the same id as
  asked twice on one date leaves the id in that date's \<open>askedQuestionIds\<close> exactly
  once, for every document whose list for that date did not already hold the id more
  than once (every document with duplicate-free lists, the data model's invariant).
\<close>

theorem ledger_deduplication:
  "askedQuestionIds (ledger (snd (markQuestionAsked uid questionId now fs)) uid date) =
     (if date = getTodayDate now \<and> questionId \<notin> set (askedQuestionIds (ledger fs uid date))
      then askedQuestionIds (ledger fs uid date) @ [questionId]
      else askedQuestionIds (ledger fs uid date))
   \<and> answeredQuestionIds (ledger (snd (markQuestionAsked uid questionId now fs)) uid date) =
       answeredQuestionIds (ledger fs uid date)
   \<and> answeredQuestionIds (ledger (snd (markQuestionAnswered uid questionId now fs)) uid date) =
     (if date = getTodayDate now \<and> questionId \<notin> set (answeredQuestionIds (ledger fs uid date))
      then answeredQuestionIds (ledger fs uid date) @ [questionId]
      else answeredQuestionIds (ledger fs uid date))
   \<and> askedQuestionIds (ledger (snd (markQuestionAnswered uid questionId now fs)) uid date) =
       askedQuestionIds (ledger fs uid date)
   \<and> (distinct (askedQuestionIds (ledger fs uid date)) \<longrightarrow>
        distinct (askedQuestionIds
          (ledger (snd (markQuestionAsked uid questionId now fs)) uid date)))
   \<and> (distinct (answeredQuestionIds (ledger fs uid date)) \<longrightarrow>
        distinct (answeredQuestionIds
          (ledger (snd (markQuestionAnswered uid questionId now fs)) uid date)))
   \<and> (getTodayDate now' = getTodayDate now
        \<and> count_list (askedQuestionIds (ledger fs uid (getTodayDate now))) questionId \<le> 1
        \<longrightarrow>
        count_list (askedQuestionIds (ledger
            (snd (markQuestionAsked uid questionId now'
               (snd (markQuestionAsked uid questionId now fs)))) uid (getTodayDate now)))
          questionId = 1)"
  by (simp add: ledger_markQuestionAsked ledger_markQuestionAnswered pushNew_idem count_pushNew
      distinct_pushNew) (simp add: pushNew_def)

theorem ledger_deduplication_witness:
  "getTodayDate ''2024-01-02T09:30:00.000Z'' = getTodayDate ''2024-01-02T08:00:00.000Z''
   \<and> getTodayDate ''2024-01-02T08:00:00.000Z'' = ''2024-01-02''
   \<and> distinct (askedQuestionIds (ledger emptyStore ''u1'' ''2024-01-02''))
   \<and> count_list (askedQuestionIds (ledger emptyStore ''u1'' ''2024-01-02'')) ''q1'' \<le> 1
   \<and> askedQuestionIds (ledger
        (snd (markQuestionAsked ''u1'' ''q1'' ''2024-01-02T09:30:00.000Z''
           (snd (markQuestionAsked ''u1'' ''q1'' ''2024-01-02T08:00:00.000Z'' emptyStore))))
        ''u1'' ''2024-01-02'') = [''q1'']
   \<and> count_list (askedQuestionIds (ledger
        (snd (markQuestionAsked ''u1'' ''q1'' ''2024-01-02T09:30:00.000Z''
           (snd (markQuestionAsked ''u1'' ''q1'' ''2024-01-02T08:00:00.000Z'' emptyStore))))
        ''u1'' ''2024-01-02'')) ''q1'' = 1"
  using ledger_deduplication [of "''u1''" "''q1''" "''2024-01-02T08:00:00.000Z''" emptyStore
      "''2024-01-02''" "''2024-01-02T09:30:00.000Z''"]
    ledger_deduplication [of "''u1''" "''q1''" "''2024-01-02T09:30:00.000Z''"
      "snd (markQuestionAsked ''u1'' ''q1'' ''2024-01-02T08:00:00.000Z'' emptyStore)"
      "''2024-01-02''" "''2024-01-02T09:30:00.000Z''"]
  by (simp add: getTodayDate_def ledger_def loadedDoc_def emptyStore_def dayOf_def dailyOf_def
      initialDoc_def emptyDay_def)

text \<open>
  The merge of \<open>updateQuestion\<close>, field by field: a field of the updates that holds a
  value overwrites; one that is missing or holds \<open>undefined\<close> leaves the question's own
  field (without an \<open>undefined\<close> of its own, which the last \<open>removeUndefined\<close> drops).
\<close>

lemma merged_fields:
  "id' (removeUndefined_question (spread q (removeUndefined_updates u))) =
     (case id_u u of Value v \<Rightarrow> v | Absent \<Rightarrow> id' q | Undefined \<Rightarrow> id' q)"
  "status (removeUndefined_question (spread q (removeUndefined_updates u))) =
     (case status_u u of Value v \<Rightarrow> v | Absent \<Rightarrow> status q | Undefined \<Rightarrow> status q)"
  "question (removeUndefined_question (spread q (removeUndefined_updates u))) =
     (case question_u u of Value v \<Rightarrow> v | Absent \<Rightarrow> question q | Undefined \<Rightarrow> question q)"
  "answers (removeUndefined_question (spread q (removeUndefined_updates u))) =
     (case answers_u u of Value v \<Rightarrow> AnswersArray v
      | Absent \<Rightarrow> answers (removeUndefined_question q)
      | Undefined \<Rightarrow> answers (removeUndefined_question q))"
  "questionExplanation (removeUndefined_question (spread q (removeUndefined_updates u))) =
     (case questionExplanation_u u of Value v \<Rightarrow> Value v
      | Absent \<Rightarrow> dropUndefined (questionExplanation q)
      | Undefined \<Rightarrow> dropUndefined (questionExplanation q))"
  "contextConversation (removeUndefined_question (spread q (removeUndefined_updates u))) =
     (case contextConversation_u u of Value v \<Rightarrow> Value v
      | Absent \<Rightarrow> dropUndefined (contextConversation q)
      | Undefined \<Rightarrow> dropUndefined (contextConversation q))"
  "askedAt (removeUndefined_question (spread q (removeUndefined_updates u))) =
     (case askedAt_u u of Value v \<Rightarrow> Value v
      | Absent \<Rightarrow> dropUndefined (askedAt q)
      | Undefined \<Rightarrow> dropUndefined (askedAt q))"
  by (simp_all add: removeUndefined_question_def spread_def removeUndefined_updates_def
      split: optional.splits AnswersField.splits)

text \<open>
  C8. \<open>updateQuestion\<close> rewrites the sequence a read yields, position by position: the
  length and the order stay, a question whose id differs from \<open>questionId\<close> is left as
  it is, and when no question has the id the sequence is unchanged. An undefined-valued
  field of the updates is dropped before the merge: the call behaves as the call with
  the cleaned updates, which hold no \<open>undefined\<close>, and in a merged question \<open>q\<close> such
  a field, like a missing one, leaves the field of \<open>q\<close>.
\<close>

theorem updateQuestion_frame:
  "map_option questions (docs (snd (updateQuestion uid questionId updates fs)) uid) =
     Some (map (\<lambda>q. if id' q = questionId
                     then removeUndefined_question (spread q (removeUndefined_updates updates))
                     else q)
             (questions (loadedDoc fs uid)))
   \<and> map_option (\<lambda>d. length (questions d))
        (docs (snd (updateQuestion uid questionId updates fs)) uid) =
       Some (length (questions (loadedDoc fs uid)))
   \<and> (\<forall>i < length (questions (loadedDoc fs uid)).
         id' (questions (loadedDoc fs uid) ! i) \<noteq> questionId \<longrightarrow>
         map_option (\<lambda>d. questions d ! i)
           (docs (snd (updateQuestion uid questionId updates fs)) uid) =
           Some (questions (loadedDoc fs uid) ! i))
   \<and> ((\<forall>q \<in> set (questions (loadedDoc fs uid)). id' q \<noteq> questionId) \<longrightarrow>
         map_option questions (docs (snd (updateQuestion uid questionId updates fs)) uid) =
           Some (questions (loadedDoc fs uid)))
   \<and> updateQuestion uid questionId updates fs =
       updateQuestion uid questionId (removeUndefined_updates updates) fs
   \<and> id_u (removeUndefined_updates updates) \<noteq> Undefined
   \<and> status_u (removeUndefined_updates updates) \<noteq> Undefined
   \<and> question_u (removeUndefined_updates updates) \<noteq> Undefined
   \<and> answers_u (removeUndefined_updates updates) \<noteq> Undefined
   \<and> questionExplanation_u (removeUndefined_updates updates) \<noteq> Undefined
   \<and> contextConversation_u (removeUndefined_updates updates) \<noteq> Undefined
   \<and> askedAt_u (removeUndefined_updates updates) \<noteq> Undefined
   \<and> id' (removeUndefined_question (spread q (removeUndefined_updates updates))) =
       (case id_u updates of Value v \<Rightarrow> v | Absent \<Rightarrow> id' q | Undefined \<Rightarrow> id' q)
   \<and> status (removeUndefined_question (spread q (removeUndefined_updates updates))) =
       (case status_u updates of Value v \<Rightarrow> v | Absent \<Rightarrow> status q | Undefined \<Rightarrow> status q)
   \<and> question (removeUndefined_question (spread q (removeUndefined_updates updates))) =
       (case question_u updates of Value v \<Rightarrow> v | Absent \<Rightarrow> question q
        | Undefined \<Rightarrow> question q)
   \<and> answers (removeUndefined_question (spread q (removeUndefined_updates updates))) =
       (case answers_u updates of Value v \<Rightarrow> AnswersArray v
        | Absent \<Rightarrow> answers (removeUndefined_question q)
        | Undefined \<Rightarrow> answers (removeUndefined_question q))
   \<and> questionExplanation (removeUndefined_question (spread q (removeUndefined_updates updates))) =
       (case questionExplanation_u updates of Value v \<Rightarrow> Value v
        | Absent \<Rightarrow> dropUndefined (questionExplanation q)
        | Undefined \<Rightarrow> dropUndefined (questionExplanation q))
   \<and> contextConversation (removeUndefined_question (spread q (removeUndefined_updates updates))) =
       (case contextConversation_u updates of Value v \<Rightarrow> Value v
        | Absent \<Rightarrow> dropUndefined (contextConversation q)
        | Undefined \<Rightarrow> dropUndefined (contextConversation q))
   \<and> askedAt (removeUndefined_question (spread q (removeUndefined_updates updates))) =
       (case askedAt_u updates of Value v \<Rightarrow> Value v
        | Absent \<Rightarrow> dropUndefined (askedAt q)
        | Undefined \<Rightarrow> dropUndefined (askedAt q))"
proof -
  let ?qs = "questions (loadedDoc fs uid)"
  let ?fs' = "snd (updateQuestion uid questionId updates fs)"
  let ?f = "\<lambda>q. if id' q = questionId
                 then removeUndefined_question (spread q (removeUndefined_updates updates))
                 else q"
  have stored: "docs ?fs' uid = Some ((loadedDoc fs uid)\<lparr>questions := map ?f ?qs\<rparr>)"
    by (simp add: updateQuestion_result)
  have 1: "map_option questions (docs ?fs' uid) = Some (map ?f ?qs)"
    by (simp add: stored)
  have 2: "map_option (\<lambda>d. length (questions d)) (docs ?fs' uid) = Some (length ?qs)"
    by (simp add: stored)
  have 3: "\<forall>i < length ?qs. id' (?qs ! i) \<noteq> questionId \<longrightarrow>
         map_option (\<lambda>d. questions d ! i) (docs ?fs' uid) = Some (?qs ! i)"
    by (simp add: stored)
  have "map ?f ?qs = ?qs" if "\<forall>q \<in> set ?qs. id' q \<noteq> questionId"
    using that by (simp add: map_idI)
  then have 4: "(\<forall>q \<in> set ?qs. id' q \<noteq> questionId) \<longrightarrow>
         map_option questions (docs ?fs' uid) = Some ?qs"
    by (simp add: stored)
  have 5: "updateQuestion uid questionId updates fs =
       updateQuestion uid questionId (removeUndefined_updates updates) fs"
    by (simp add: updateQuestion_eq removeUndefined_updates_idem cong: if_cong)
  have 6: "id_u (removeUndefined_updates updates) \<noteq> Undefined"
    "status_u (removeUndefined_updates updates) \<noteq> Undefined"
    "question_u (removeUndefined_updates updates) \<noteq> Undefined"
    "answers_u (removeUndefined_updates updates) \<noteq> Undefined"
    "questionExplanation_u (removeUndefined_updates updates) \<noteq> Undefined"
    "contextConversation_u (removeUndefined_updates updates) \<noteq> Undefined"
    "askedAt_u (removeUndefined_updates updates) \<noteq> Undefined"
    by (simp_all add: removeUndefined_updates_def dropUndefined_defined)
  show ?thesis
    by (intro conjI) (fact 1 2 3 4 5 6 merged_fields)+
qed

theorem updateQuestion_frame_witness:
  "questions (loadedDoc twoQuestionStore ''u1'') = [currentQ ''1'', currentQ ''2'']
   \<and> id' (currentQ ''1'') \<noteq> ''2''
   \<and> map_option questions
        (docs (snd (updateQuestion ''u1'' ''2''
            \<lparr> id_u = Absent, status_u = Undefined, question_u = Absent,
              answers_u = Absent, questionExplanation_u = Value ''uitleg'',
              contextConversation_u = Undefined, askedAt_u = Absent \<rparr> twoQuestionStore)) ''u1'') =
       Some [currentQ ''1'', (currentQ ''2'')\<lparr>questionExplanation := Value ''uitleg''\<rparr>]
   \<and> map_option questions
        (docs (snd (updateQuestion ''u1'' ''3''
            \<lparr> id_u = Absent, status_u = Undefined, question_u = Absent,
              answers_u = Absent, questionExplanation_u = Value ''uitleg'',
              contextConversation_u = Undefined, askedAt_u = Absent \<rparr> twoQuestionStore)) ''u1'') =
       Some [currentQ ''1'', currentQ ''2'']"
  using updateQuestion_frame [of "''u1''" "''2''"
      "\<lparr> id_u = Absent, status_u = Undefined, question_u = Absent,
         answers_u = Absent, questionExplanation_u = Value ''uitleg'',
         contextConversation_u = Undefined, askedAt_u = Absent \<rparr>" twoQuestionStore]
    updateQuestion_frame [of "''u1''" "''3''"
      "\<lparr> id_u = Absent, status_u = Undefined, question_u = Absent,
         answers_u = Absent, questionExplanation_u = Value ''uitleg'',
         contextConversation_u = Undefined, askedAt_u = Absent \<rparr>" twoQuestionStore]
  by (simp add: loadedDoc_def twoQuestionStore_def currentQ_def repository_defs)

text \<open>
  C9. \<open>getUserDocument\<close> never resolves to \<open>null\<close>: it returns the document a read
  yields, and when none is stored it creates, persists and returns the initial document
  (\<open>questions = []\<close>, \<open>dailyQuestions = {}\<close>, \<open>level = 'a0'\<close>). So \<open>addQuestion\<close>,
  \<open>updateQuestion\<close>, \<open>markQuestionAsked\<close> and \<open>markQuestionAnswered\<close> never take their
  \<open>if (!userDoc) return\<close> branch: for every store, absent document or not, each
  completes and leaves its work in the stored document.
\<close>

theorem getUserDocument_never_null:
  "fst (getUserDocument uid fs) = Inr (Some (loadedDoc fs uid))
   \<and> fst (getUserDocument uid fs) \<noteq> Inr None
   \<and> (docs fs uid = None \<longrightarrow>
        getUserDocument uid fs =
          (Inr (Some \<lparr>questions = [], dailyQuestions = Some Map.empty, level = ''a0''\<rparr>),
           fs\<lparr>docs := (docs fs)(uid \<mapsto> \<lparr>questions = [], dailyQuestions = Some Map.empty,
                                            level = ''a0''\<rparr>),
              writes := writes fs @ [SetDoc uid \<lparr>questions = [], dailyQuestions = Some Map.empty,
                                                 level = ''a0''\<rparr>]\<rparr>)
        \<and> loadedDoc fs uid = \<lparr>questions = [], dailyQuestions = Some Map.empty, level = ''a0''\<rparr>)
   \<and> fst (addQuestion uid q fs) = Inr ()
   \<and> docs (snd (addQuestion uid q fs)) uid =
       Some ((loadedDoc fs uid)\<lparr>questions := questions (loadedDoc fs uid) @ [q]\<rparr>)
   \<and> fst (updateQuestion uid questionId updates fs) = Inr ()
   \<and> docs (snd (updateQuestion uid questionId updates fs)) uid =
       Some ((loadedDoc fs uid)\<lparr>questions :=
          map (\<lambda>q. if id' q = questionId
                    then removeUndefined_question (spread q (removeUndefined_updates updates))
                    else q)
            (questions (loadedDoc fs uid))\<rparr>)
   \<and> fst (markQuestionAsked uid questionId now fs) = Inr ()
   \<and> questionId \<in> set (askedQuestionIds
         (ledger (snd (markQuestionAsked uid questionId now fs)) uid (getTodayDate now)))
   \<and> fst (markQuestionAnswered uid questionId now fs) = Inr ()
   \<and> questionId \<in> set (answeredQuestionIds
         (ledger (snd (markQuestionAnswered uid questionId now fs)) uid (getTodayDate now)))"
proof -
  have absent: "docs fs uid = None \<Longrightarrow> getUserDocument uid fs =
          (Inr (Some \<lparr>questions = [], dailyQuestions = Some Map.empty, level = ''a0''\<rparr>),
           fs\<lparr>docs := (docs fs)(uid \<mapsto> \<lparr>questions = [], dailyQuestions = Some Map.empty,
                                            level = ''a0''\<rparr>),
              writes := writes fs @ [SetDoc uid \<lparr>questions = [], dailyQuestions = Some Map.empty,
                                                 level = ''a0''\<rparr>]\<rparr>)"
    using getUserDocument_absent [of fs uid] by (simp add: initialDoc_def)
  have loaded: "docs fs uid = None \<Longrightarrow>
      loadedDoc fs uid = \<lparr>questions = [], dailyQuestions = Some Map.empty, level = ''a0''\<rparr>"
    by (simp add: loadedDoc_def initialDoc_def)
  have read: "fst (getUserDocument uid fs) = Inr (Some (loadedDoc fs uid))"
    by (subst getUserDocument_eq) simp
  show ?thesis
    using absent loaded read
    by (simp add: addQuestion_result updateQuestion_result
        markQuestionAsked_result(1) markQuestionAnswered_result(1)
        ledger_markQuestionAsked ledger_markQuestionAnswered member_pushNew)
qed

theorem getUserDocument_never_null_witness:
  "docs emptyStore ''u1'' = None
   \<and> getUserDocument ''u1'' emptyStore =
       (Inr (Some \<lparr>questions = [], dailyQuestions = Some Map.empty, level = ''a0''\<rparr>),
        \<lparr>docs = [''u1'' \<mapsto> \<lparr>questions = [], dailyQuestions = Some Map.empty, level = ''a0''\<rparr>],
         writes = [SetDoc ''u1'' \<lparr>questions = [], dailyQuestions = Some Map.empty,
                                   level = ''a0''\<rparr>]\<rparr>)
   \<and> docs (snd (addQuestion ''u1'' (currentQ ''1'') emptyStore)) ''u1'' =
       Some \<lparr>questions = [currentQ ''1''], dailyQuestions = Some Map.empty, level = ''a0''\<rparr>"
  using getUserDocument_never_null [of "''u1''" emptyStore "currentQ ''1''"]
  by (simp add: emptyStore_def loadedDoc_def repository_defs)

section \<open>Properties of the generate-question handler\<close>

lemma lastAnswerProp_hasAnswer:
  "hasAnswer q \<Longrightarrow> lastAnswerProp f q = Inr (f (last (existingAnswers q)))"
  by (simp add: hasAnswer_def lastAnswerProp_def lastAnswer_def existingAnswers_def
      split: AnswersField.splits)

lemma lastAnswerProp_no_answer:
  "\<not> hasAnswer q \<Longrightarrow> lastAnswerProp f q = Inl TypeError"
  by (simp add: hasAnswer_def lastAnswerProp_def lastAnswer_def split: AnswersField.splits)

lemma compareFn_hasAnswer:
  "hasAnswer a \<Longrightarrow> hasAnswer b \<Longrightarrow>
   compareFn getTime a b = Inr (minusTime (latestTime getTime a) (latestTime getTime b))"
  by (simp add: compareFn_def answerTime_def lastAnswerProp_hasAnswer latestTime_def)

lemma compareFn_sortable:
  assumes "sortable getTime a" and "sortable getTime b"
  shows "compareFn getTime a b = Inr (Some (sortKey getTime a - sortKey getTime b))"
proof -
  from assms obtain x y where "latestTime getTime a = Some x" and "latestTime getTime b = Some y"
    by (auto simp: sortable_def)
  with assms show ?thesis
    by (simp add: compareFn_hasAnswer sortable_def sortKey_def)
qed

lemma insertBy_sortable:
  "sortable getTime x \<Longrightarrow> list_all (sortable getTime) ys \<Longrightarrow>
   insertBy (compareFn getTime) x ys = Inr (insort_key (sortKey getTime) x ys)"
  by (induction ys) (simp_all add: compareFn_sortable)

lemma sortBy_sortable:
  "list_all (sortable getTime) xs \<Longrightarrow>
   sortBy (compareFn getTime) xs = Inr (sort_key (sortKey getTime) xs)"
proof (induction xs)
  case Nil
  show ?case by simp
next
  case (Cons x xs)
  then have "list_all (sortable getTime) (sort_key (sortKey getTime) xs)"
    by (simp add: list_all_iff)
  with Cons show ?case
    by (simp add: insertBy_sortable)
qed

lemma mapThrowing_total:
  "list_all (\<lambda>x. f x = Inr (g x)) xs \<Longrightarrow> mapThrowing f xs = Inr (map g xs)"
  by (induction xs) simp_all

text \<open>
  Where every answered question has an answer whose \<open>answeredAt\<close> is empty or parses,
  the handler's chain does not throw: the history lists the answered questions in the
  stable order of their latest answer's time, a latest answer with an empty
  \<open>answeredAt\<close> counting as time 0.
\<close>

lemma conversationHistory_total:
  assumes "list_all (sortable getTime) (filter (\<lambda>q. status q = answered) qs)"
  shows "conversationHistory getTime qs =
     Inr (join (newline @ newline)
       (map (\<lambda>q. ''Q: '' @ question q @ newline @ ''A: '' @ answer (last (existingAnswers q)))
          (sort_key (sortKey getTime) (filter (\<lambda>q. status q = answered) qs))))"
proof -
  let ?xs = "filter (\<lambda>q. status q = answered) qs"
  let ?g = "\<lambda>q. ''Q: '' @ question q @ newline @ ''A: '' @ answer (last (existingAnswers q))"
  have "list_all hasAnswer (sort_key (sortKey getTime) ?xs)"
    using assms by (simp add: list_all_iff sortable_def)
  then have "list_all (\<lambda>q. historyLine q = Inr (?g q)) (sort_key (sortKey getTime) ?xs)"
    by (simp add: list_all_iff historyLine_def lastAnswerProp_hasAnswer)
  then have "mapThrowing historyLine (sort_key (sortKey getTime) ?xs)
      = Inr (map ?g (sort_key (sortKey getTime) ?xs))"
    by (rule mapThrowing_total)
  then show ?thesis
    using assms by (simp add: conversationHistory_def sortBy_sortable)
qed

lemma insertBy_set: "insertBy cmp x ys = Inr zs \<Longrightarrow> set zs = insert x (set ys)"
proof (induction ys arbitrary: zs)
  case Nil
  then show ?case by auto
next
  case (Cons y ys)
  show ?case
  proof (cases "cmp x y")
    case (Inl e)
    with Cons.prems show ?thesis by simp
  next
    case (Inr c)
    show ?thesis
    proof (cases "sortCompare c \<le> 0")
      case True
      with Inr Cons.prems show ?thesis by auto
    next
      case False
      show ?thesis
      proof (cases "insertBy cmp x ys")
        case (Inl e)
        with Inr False Cons.prems show ?thesis by simp
      next
        case ins: (Inr zs')
        with Inr False Cons.prems have "zs = y # zs'" by simp
        moreover have "set zs' = insert x (set ys)" using Cons.IH [OF ins] .
        ultimately show ?thesis by auto
      qed
    qed
  qed
qed

lemma sortBy_set: "sortBy cmp xs = Inr ys \<Longrightarrow> set ys = set xs"
proof (induction xs arbitrary: ys)
  case Nil
  then show ?case by simp
next
  case (Cons x xs)
  show ?case
  proof (cases "sortBy cmp xs")
    case (Inl e)
    with Cons.prems show ?thesis by simp
  next
    case (Inr zs)
    with Cons.prems have "insertBy cmp x zs = Inr ys" by simp
    then have "set ys = insert x (set zs)" by (rule insertBy_set)
    with Cons.IH [OF Inr] show ?thesis by simp
  qed
qed

lemma compareFn_error: "compareFn getTime a b = Inl e \<Longrightarrow> e = TypeError"
  by (cases "hasAnswer a"; cases "hasAnswer b")
     (auto simp: compareFn_def answerTime_def lastAnswerProp_hasAnswer lastAnswerProp_no_answer)

lemma insertBy_error: "insertBy (compareFn getTime) x ys = Inl e \<Longrightarrow> e = TypeError"
  by (induction ys) (auto split: sum.splits if_splits dest: compareFn_error)

lemma sortBy_error: "sortBy (compareFn getTime) xs = Inl e \<Longrightarrow> e = TypeError"
  by (induction xs) (auto split: sum.splits dest: insertBy_error)

lemma historyLine_error: "historyLine q = Inl e \<Longrightarrow> e = TypeError"
  by (cases "hasAnswer q")
     (auto simp: historyLine_def lastAnswerProp_hasAnswer lastAnswerProp_no_answer)

lemma mapThrowing_fails:
  "x \<in> set xs \<Longrightarrow> f x = Inl TypeError \<Longrightarrow> (\<And>y e. f y = Inl e \<Longrightarrow> e = TypeError) \<Longrightarrow>
   mapThrowing f xs = Inl TypeError"
proof (induction xs)
  case Nil
  then show ?case by simp
next
  case (Cons a xs)
  show ?case
  proof (cases "f a")
    case (Inl e)
    with Cons.prems(3) show ?thesis by auto
  next
    case (Inr y)
    with Cons have "x \<in> set xs" by auto
    with Cons have "mapThrowing f xs = Inl TypeError" by blast
    with Inr show ?thesis by simp
  qed
qed

lemma hasAnswer_answeredGoed: "hasAnswer answeredGoed"
  by (simp add: hasAnswer_def answeredGoed_def legacyGoed_def migrateQuestion_def
      copyOptional_def freshQuestion_def)

text \<open>
  C4, where the code departs from the claim. An answered question whose \<open>answers\<close> is
  the empty array does not sort first with time 0: \<open>a.answers[a.answers.length - 1]\<close> is
  \<open>undefined\<close>, reading \<open>answeredAt\<close> (in the comparator) or \<open>answer\<close> (in the \<open>map\<close>
  that follows) throws, and the chain fails with a TypeError whatever the other
  questions are.
\<close>

theorem conversationHistory_throws_on_empty_answers:
  assumes "q \<in> set qs" and "status q = answered" and "answers q = AnswersArray []"
  shows "conversationHistory getTime qs = Inl TypeError"
proof (cases "sortBy (compareFn getTime) (filter (\<lambda>q. status q = answered) qs)")
  case (Inl e)
  then show ?thesis
    using sortBy_error [OF Inl] by (simp add: conversationHistory_def)
next
  case (Inr ys)
  have "q \<in> set ys"
    using sortBy_set [OF Inr] assms by simp
  moreover have "historyLine q = Inl TypeError"
    using assms(3) by (simp add: historyLine_def lastAnswerProp_def lastAnswer_def)
  ultimately have "mapThrowing historyLine ys = Inl TypeError"
    using historyLine_error by (rule mapThrowing_fails)
  then show ?thesis
    using Inr by (simp add: conversationHistory_def)
qed

text \<open>
  At the request with the two answered questions \<open>answeredGoed\<close> and
  \<open>answeredNoAnswers\<close>, the comparator throws and the handler answers 500.
\<close>

theorem handler_fails_on_empty_answers:
  "answeredNoAnswers \<in> set [answeredGoed, answeredNoAnswers]
   \<and> status answeredNoAnswers = answered
   \<and> answers answeredNoAnswers = AnswersArray []
   \<and> conversationHistory (\<lambda>s. Some 0) [answeredGoed, answeredNoAnswers] = Inl TypeError
   \<and> conversationHistory (\<lambda>s. Some 0) [answeredNoAnswers] = Inl TypeError
   \<and> compareFn (\<lambda>s. Some 0) answeredGoed answeredNoAnswers = Inl TypeError
   \<and> handler (\<lambda>s. Some 0) (\<lambda>l h. Inr ''Hoe heet je?'') (\<lambda>t. t)
        \<lparr>method' = ''POST'', answeredQuestions = Value [answeredGoed, answeredNoAnswers],
         currentLevel = Value ''a0''\<rparr> = (500, ''Failed to generate question'')"
proof -
  have 1: "status answeredNoAnswers = answered" "answers answeredNoAnswers = AnswersArray []"
    by (simp_all add: answeredNoAnswers_def currentQ_def)
  have 2: "conversationHistory (\<lambda>s. Some 0) [answeredGoed, answeredNoAnswers] = Inl TypeError"
    using conversationHistory_throws_on_empty_answers
      [of answeredNoAnswers "[answeredGoed, answeredNoAnswers]" "\<lambda>s. Some 0"] 1
    by simp
  have 3: "conversationHistory (\<lambda>s. Some 0) [answeredNoAnswers] = Inl TypeError"
    using 1
    by (simp add: conversationHistory_def historyLine_def lastAnswerProp_def lastAnswer_def)
  have 4: "compareFn (\<lambda>s. Some 0) answeredGoed answeredNoAnswers = Inl TypeError"
    using 1
    by (simp add: compareFn_def answerTime_def lastAnswerProp_hasAnswer [OF hasAnswer_answeredGoed]
        lastAnswerProp_def [of _ answeredNoAnswers] lastAnswer_def)
  show ?thesis
    using 1 2 3 4 by (simp add: handler_def)
qed

section \<open>Properties of the lifecycle controller\<close>

text \<open>
  C1. Once a question has an answer with \<open>isCorrect = true\<close>, Submit-Answer for it is a
  no-op: the card renders neither answer form (the first needs an empty \<open>answers\<close>,
  "Try Again" needs \<open>!question.answers.some(a => a.isCorrect)\<close>), so no validation call
  is made and the store (questions, statuses, daily ledger, trace of writes) and the
  state of \<open>App\<close> are unchanged. The guard is the card's; \<open>handleAnswer\<close> has none
  (lemma \<open>handleAnswer_not_guarded\<close> below).
\<close>

theorem submitAnswer_correct_locked:
  assumes "list_ex isCorrect (existingAnswers q)"
  shows "submitAnswer trim post now now' q answerInput (fs, st) = (fs, st, [])"
  using assms
  by (cases "answers q")
     (auto simp: submitAnswer_def answerFormRendered_def tryAgainFormRendered_def
       existingAnswers_def)

theorem submitAnswer_correct_locked_witness:
  "list_ex isCorrect (existingAnswers answeredGoed)
   \<and> answeredGoed \<in> set (questions goedDoc)
   \<and> submitAnswer (\<lambda>t. t) postCorrect ''2024-01-02T08:00:00.000Z''
        ''2024-01-02T08:00:01.000Z'' answeredGoed ''Het gaat goed'' (goedStore, goedApp) =
       (goedStore, goedApp, [])"
  using submitAnswer_correct_locked [of answeredGoed "\<lambda>t. t" postCorrect
      "''2024-01-02T08:00:00.000Z''" "''2024-01-02T08:00:01.000Z''" "''Het gaat goed''"
      goedStore goedApp]
  by (simp add: answeredGoed_def legacyGoed_def goedDoc_def existingAnswers_def
      migrateQuestion_def copyOptional_def freshQuestion_def migratedAnswer_def orElse_def)

lemma loadedDoc_stored:
  "docs fs uid = Some d \<Longrightarrow> \<not> list_ex isQuestionV1 (questions d) \<Longrightarrow> loadedDoc fs uid = d"
  by (simp add: loadedDoc_def migrateUserDocument_update map_migrateQuestion_current
      del: isQuestionV1.simps)

lemma find_by_id:
  "q \<in> set qs \<Longrightarrow> distinct (map id' qs) \<Longrightarrow> find (\<lambda>x. id' x = id' q) qs = Some q"
  by (induction qs) (auto simp: image_iff)

lemma answered_question:
  "removeUndefined_question (spread q (removeUndefined_updates (answerUpdates q a))) =
     removeUndefined_question
       (q\<lparr>status := (if existingAnswers q = [] then answered else status q),
          answers := AnswersArray (existingAnswers q @ [a])\<rparr>)"
  by (simp add: spread_def removeUndefined_updates_def answerUpdates_def)

lemma answered_question_fields:
  "id' (removeUndefined_question (spread q (removeUndefined_updates (answerUpdates q a)))) = id' q"
  "status (removeUndefined_question (spread q (removeUndefined_updates (answerUpdates q a)))) =
     (if existingAnswers q = [] then answered else status q)"
  "answers (removeUndefined_question (spread q (removeUndefined_updates (answerUpdates q a)))) =
     AnswersArray (existingAnswers q @ [a])"
  by (simp_all add: spread_def removeUndefined_updates_def answerUpdates_def
      removeUndefined_question_def)

lemma updated_current:
  assumes "list_all (\<lambda>q. \<not> isQuestionV1 q) qs"
  shows "list_all (\<lambda>q. \<not> isQuestionV1 q)
     (map (\<lambda>x. if id' x = i
                then removeUndefined_question (spread x (removeUndefined_updates (answerUpdates q a)))
                else x) qs)"
  using assms
  by (induction qs)
     (simp_all add: spread_def removeUndefined_updates_def answerUpdates_def
       removeUndefined_question_def)

lemma updated_ids:
  "map id' (map (\<lambda>x. if id' x = id' q
                then removeUndefined_question (spread x (removeUndefined_updates (answerUpdates q a)))
                else x) qs) = map id' qs"
  by (induction qs)
     (simp_all add: spread_def removeUndefined_updates_def answerUpdates_def
       removeUndefined_question_def)

lemma updated_only_q:
  assumes "q \<in> set qs" and "distinct (map id' qs)"
  shows "map (\<lambda>x. if id' x = id' q then f x else x) qs =
         map (\<lambda>x. if id' x = id' q then f q else x) qs"
proof (rule map_cong [OF refl])
  fix x assume "x \<in> set qs"
  have "x = q" if "id' x = id' q"
    using that assms \<open>x \<in> set qs\<close> by (meson distinct_map inj_onD)
  then show "(if id' x = id' q then f x else x) = (if id' x = id' q then f q else x)"
    by auto
qed

lemma handleAnswer_accepted:
  fixes now :: string
  assumes ready: "ready fs st uid doc"
    and q: "q \<in> set (questions doc)"
    and valid: "validateAnswer post (question q) answerText = Inr v"
  defines "a \<equiv> newAnswer answerText v now"
  defines "qs' \<equiv> map (\<lambda>x. if id' x = id' q
                then removeUndefined_question (spread x (removeUndefined_updates (answerUpdates q a)))
                else x) (questions doc)"
  shows "\<exists>fs' doc'. handleAnswer post now now' (id' q) answerText (fs, st) =
            (fs', st\<lparr>userDoc := Some doc', validatingQuestionId := None\<rparr>, [(question q, answerText)])
         \<and> docs fs' uid = Some doc' \<and> questions doc' = qs'"
proof -
  from ready have user: "user st = Some uid" and doc: "userDoc st = Some doc"
    and stored: "docs fs uid = Some doc" and idle: "validatingQuestionId st = None"
    and current: "list_all (\<lambda>q. \<not> isQuestionV1 q) (questions doc)"
    and ids: "distinct (map id' (questions doc))"
    by (simp_all add: ready_def)
  have current': "\<not> list_ex isQuestionV1 (questions doc)"
    using current by (simp add: list_all_iff list_ex_iff del: isQuestionV1.simps)
  have found: "find (\<lambda>x. id' x = id' q) (questions doc) = Some q"
    using q ids by (rule find_by_id)
  have loaded: "loadedDoc fs uid = doc"
    using stored current' by (rule loadedDoc_stored)
  define fs1 where "fs1 = snd (updateQuestion uid (id' q) (answerUpdates q a) fs)"
  define d1 where "d1 = doc\<lparr>questions := qs'\<rparr>"
  have uq: "updateQuestion uid (id' q) (answerUpdates q a) fs = (Inr (), fs1)"
    by (simp add: fs1_def prod_eq_iff updateQuestion_result(1))
  have docs1: "docs fs1 uid = Some d1"
    by (simp add: fs1_def d1_def qs'_def updateQuestion_result(2) loaded)
  have cur1: "\<not> list_ex isQuestionV1 (questions d1)"
    using updated_current [OF current, of "id' q" q a]
    by (simp add: d1_def qs'_def list_all_iff list_ex_iff del: isQuestionV1.simps)
  have loaded1: "loadedDoc fs1 uid = d1"
    using docs1 cur1 by (rule loadedDoc_stored)
  define fs2 where "fs2 =
     (if existingAnswers q = [] then snd (markQuestionAnswered uid (id' q) now' fs1) else fs1)"
  have mk: "(if existingAnswers q = [] then markQuestionAnswered uid (id' q) now' fs1
             else (Inr (), fs1)) = (Inr (), fs2)"
    by (simp add: fs2_def prod_eq_iff markQuestionAnswered_result(1))
  obtain d2 where docs2: "docs fs2 uid = Some d2" and qs2: "questions d2 = qs'"
    by (cases "existingAnswers q = []")
       (simp_all add: fs2_def markQuestionAnswered_result(2) loaded1 docs1 d1_def)
  have cur2: "\<not> list_ex isQuestionV1 (questions d2)"
    using cur1 by (simp add: qs2 d1_def del: isQuestionV1.simps)
  have read: "getUserDocument uid fs2 = (Inr (Some d2), fs2)"
    using docs2 cur2 by (rule getUserDocument_current)
  have "handleAnswer post now now' (id' q) answerText (fs, st) =
      (fs2, st\<lparr>userDoc := Some d2, validatingQuestionId := None\<rparr>, [(question q, answerText)])"
    by (simp add: handleAnswer_def user doc idle found valid a_def [symmetric] uq mk read
        finish_def)
  with docs2 qs2 show ?thesis by blast
qed

text \<open>
  \<open>App\<close> reaches the state \<open>ready\<close> by loading: after \<open>getUserDocument\<close>, with the
  document it returns as \<open>userDoc\<close>, for every store whose question ids are unique.
\<close>

lemma ready_after_read:
  assumes "distinct (map id' (questions (loadedDoc fs uid)))"
  shows "fst (getUserDocument uid fs) = Inr (Some (loadedDoc fs uid))
     \<and> ready (snd (getUserDocument uid fs))
          \<lparr> user = Some uid, userDoc = Some (loadedDoc fs uid), validatingQuestionId = None \<rparr>
          uid (loadedDoc fs uid)"
proof -
  have "fst (getUserDocument uid fs) = Inr (Some (loadedDoc fs uid))"
    by (subst getUserDocument_eq) simp
  moreover have "list_all (\<lambda>q. \<not> isQuestionV1 q) (questions (loadedDoc fs uid))"
    using loadedDoc_current [of fs uid]
    by (simp add: list_all_iff list_ex_iff del: isQuestionV1.simps)
  ultimately show ?thesis
    using assms by (simp add: ready_def getUserDocument_docs del: isQuestionV1.simps)
qed

text \<open>
  \<open>handleAnswer\<close> itself does not look for a correct answer: called for the question of
  \<open>goedDoc\<close>, which has one, it calls the validation service.
\<close>

lemma handleAnswer_not_guarded:
  "list_ex isCorrect (existingAnswers answeredGoed)
   \<and> snd (snd (handleAnswer postCorrect ''2024-01-02T08:00:00.000Z'' ''2024-01-02T08:00:01.000Z''
        ''1'' ''Het gaat goed'' (goedStore, goedApp))) = [(''Hoe gaat het?'', ''Het gaat goed'')]"
proof -
  have q: "answeredGoed =
      \<lparr> id' = ''1'', status = answered, question = ''Hoe gaat het?'',
        answers = AnswersArray [\<lparr>answer = ''goed'', isCorrect = True, mistakes = ''none'',
          explanation = [], answeredAt = ''2024-01-01T10:00:00.000Z''\<rparr>],
        questionExplanation = Absent, contextConversation = Absent, askedAt = Absent,
        answerV1 = Absent, isCorrectV1 = Absent, mistakesV1 = Absent,
        explanationV1 = Absent, answeredAtV1 = Absent \<rparr>"
    by (simp add: answeredGoed_def legacyGoed_def migrateQuestion_def copyOptional_def
        freshQuestion_def migratedAnswer_def orElse_def)
  have r: "ready goedStore goedApp ''u1'' goedDoc"
    by (simp add: ready_def goedStore_def goedApp_def goedDoc_def q)
  have m: "answeredGoed \<in> set (questions goedDoc)"
    by (simp add: goedDoc_def)
  have v: "validateAnswer postCorrect (question answeredGoed) ''Het gaat goed'' =
      Inr \<lparr> correct = True, mistakes_v = ''none'', explanation_v = ''Goed zo'' \<rparr>"
    by (simp add: validateAnswer_def postCorrect_def orElse_def)
  from handleAnswer_accepted [OF r m v, of "''2024-01-02T08:00:00.000Z''"
      "''2024-01-02T08:00:01.000Z''"]
  show ?thesis
    by (auto simp: q existingAnswers_def)
qed

text \<open>
  C6. An accepted Submit-Answer (by one client in the state \<open>ready\<close>, on a question of
  the loaded document whose form is rendered, with a text whose trimmed form is not
  empty and that the validation service answers) stores, for the question's answers
  \<open>as\<close>, the sequence \<open>as\<close> followed by the one new Answer: exactly one Answer is
  appended and every earlier Answer stays, in place and as it was; every other question
  is left as it was. On a question with \<open>status = asked\<close> and no answer it sets \<open>status\<close>
  to \<open>answered\<close>; on a question with answers it does not change \<open>status\<close>, and
  \<open>answered\<close> stays \<open>answered\<close>. The state after the call is \<open>ready\<close> again, so the same
  holds for every subsequent accepted call. (\<open>trim\<close> is any function: the statement
  holds for the engine's.)
\<close>

theorem submitAnswer_appends:
  fixes now :: string
  assumes ready: "ready fs st uid doc"
    and q: "q \<in> set (questions doc)"
    and rendered: "answerFormRendered q \<or> tryAgainFormRendered q"
    and nonempty: "trim answerInput \<noteq> []"
    and valid: "validateAnswer post (question q) (trim answerInput) = Inr v"
  shows "\<exists>fs' doc' as q'.
      answers q = AnswersArray as
      \<and> submitAnswer trim post now now' q answerInput (fs, st) =
          (fs', st\<lparr>userDoc := Some doc', validatingQuestionId := None\<rparr>,
           [(question q, trim answerInput)])
      \<and> ready fs' (st\<lparr>userDoc := Some doc', validatingQuestionId := None\<rparr>) uid doc'
      \<and> questions doc' = map (\<lambda>x. if id' x = id' q then q' else x) (questions doc)
      \<and> q' = removeUndefined_question
                (q\<lparr>status := (if as = [] then answered else status q),
                   answers := AnswersArray (as @ [newAnswer (trim answerInput) v now])\<rparr>)
      \<and> answers q' = AnswersArray (as @ [newAnswer (trim answerInput) v now])
      \<and> id' q' = id' q
      \<and> (status q = asked \<and> as = [] \<longrightarrow>
           status q' = answered
           \<and> answers q' = AnswersArray [newAnswer (trim answerInput) v now])
      \<and> (as \<noteq> [] \<longrightarrow> status q' = status q)
      \<and> (status q = answered \<longrightarrow> status q' = answered)"
proof -
  let ?a = "newAnswer (trim answerInput) v now"
  let ?f = "\<lambda>x. removeUndefined_question (spread x (removeUndefined_updates (answerUpdates q ?a)))"
  from ready have user: "user st = Some uid"
    and current: "list_all (\<lambda>q. \<not> isQuestionV1 q) (questions doc)"
    and ids: "distinct (map id' (questions doc))"
    by (simp_all add: ready_def)
  from current q have "\<not> isQuestionV1 q"
    by (simp add: list_all_iff del: isQuestionV1.simps)
  then obtain as where as: "answers q = AnswersArray as"
    by (cases "answers q") simp_all
  then have existing: "existingAnswers q = as"
    by (simp add: existingAnswers_def)
  define q' where "q' = removeUndefined_question
      (q\<lparr>status := (if as = [] then answered else status q),
         answers := AnswersArray (as @ [?a])\<rparr>)"
  from handleAnswer_accepted [OF ready q valid, of now now']
  obtain fs' doc' where
    run: "handleAnswer post now now' (id' q) (trim answerInput) (fs, st) =
            (fs', st\<lparr>userDoc := Some doc', validatingQuestionId := None\<rparr>,
             [(question q, trim answerInput)])"
    and stored: "docs fs' uid = Some doc'"
    and qs: "questions doc' = map (\<lambda>x. if id' x = id' q then ?f x else x) (questions doc)"
    by blast
  have submit: "submitAnswer trim post now now' q answerInput (fs, st) =
        (fs', st\<lparr>userDoc := Some doc', validatingQuestionId := None\<rparr>,
         [(question q, trim answerInput)])"
    using rendered nonempty run by (simp add: submitAnswer_def handleSubmit_def)
  have "?f q = q'"
    by (simp add: answered_question existing q'_def)
  then have qs': "questions doc' = map (\<lambda>x. if id' x = id' q then q' else x) (questions doc)"
    using updated_only_q [OF q ids, of ?f] by (simp add: qs)
  have ready': "ready fs' (st\<lparr>userDoc := Some doc', validatingQuestionId := None\<rparr>) uid doc'"
  proof -
    have "list_all (\<lambda>q. \<not> isQuestionV1 q) (questions doc')"
      using updated_current [OF current, of "id' q" q ?a] by (simp only: qs)
    moreover have "distinct (map id' (questions doc'))"
      by (simp only: qs updated_ids ids)
    ultimately show ?thesis
      by (simp add: ready_def user stored del: isQuestionV1.simps)
  qed
  have fields: "answers q' = AnswersArray (as @ [?a])" "id' q' = id' q"
    "status q = asked \<and> as = [] \<longrightarrow> status q' = answered \<and> answers q' = AnswersArray [?a]"
    "as \<noteq> [] \<longrightarrow> status q' = status q"
    "status q = answered \<longrightarrow> status q' = answered"
    by (simp_all add: q'_def removeUndefined_question_def)
  from as submit ready' qs' q'_def fields show ?thesis
    by blast
qed

text \<open>
  Two accepted calls: the first answer to the question \<open>currentQ ''1''\<close>, and a second
  answer to \<open>triedQ\<close>, whose earlier answer \<open>wrongAnswer\<close> stays first in the stored
  sequence. The text has no white space at its ends, where \<open>trim\<close> is the identity.
\<close>

theorem submitAnswer_appends_witness:
  "ready twoQuestionStore readyApp ''u1'' twoDoc
   \<and> currentQ ''1'' \<in> set (questions twoDoc)
   \<and> status (currentQ ''1'') = asked \<and> answers (currentQ ''1'') = AnswersArray []
   \<and> answerFormRendered (currentQ ''1'')
   \<and> map_option questions
        (docs (fst (submitAnswer (\<lambda>t. t) postCorrect ''2024-01-02T08:00:00.000Z''
            ''2024-01-02T08:00:01.000Z'' (currentQ ''1'') ''Ik ga naar huis''
            (twoQuestionStore, readyApp))) ''u1'') =
       Some [(currentQ ''1'')\<lparr>status := answered,
               answers := AnswersArray [\<lparr>answer = ''Ik ga naar huis'', isCorrect = True,
                  mistakes = ''none'', explanation = ''Goed zo'',
                  answeredAt = ''2024-01-02T08:00:00.000Z''\<rparr>]\<rparr>,
             currentQ ''2'']
   \<and> snd (snd (submitAnswer (\<lambda>t. t) postCorrect ''2024-01-02T08:00:00.000Z''
            ''2024-01-02T08:00:01.000Z'' (currentQ ''1'') ''Ik ga naar huis''
            (twoQuestionStore, readyApp))) = [(''Wat is dit?'', ''Ik ga naar huis'')]
   \<and> ready triedStore triedApp ''u1'' triedDoc
   \<and> triedQ \<in> set (questions triedDoc)
   \<and> status triedQ = answered \<and> answers triedQ = AnswersArray [wrongAnswer]
   \<and> tryAgainFormRendered triedQ
   \<and> map_option questions
        (docs (fst (submitAnswer (\<lambda>t. t) postCorrect ''2024-01-02T08:00:00.000Z''
            ''2024-01-02T08:00:01.000Z'' triedQ ''Dit is een boek''
            (triedStore, triedApp))) ''u1'') =
       Some [(currentQ ''1'')\<lparr>status := answered,
               answers := AnswersArray
                 [\<lparr>answer = ''Dit zijn boek'', isCorrect = False, mistakes = ''zijn'',
                    explanation = ''Het is: dit is een boek'',
                    answeredAt = ''2024-01-01T09:00:00.000Z''\<rparr>,
                  \<lparr>answer = ''Dit is een boek'', isCorrect = True,
                    mistakes = ''none'', explanation = ''Goed zo'',
                    answeredAt = ''2024-01-02T08:00:00.000Z''\<rparr>]\<rparr>,
             currentQ ''2'']"
proof -
  let ?v = "\<lparr> correct = True, mistakes_v = ''none'', explanation_v = ''Goed zo'' \<rparr>"
  have h1: "ready twoQuestionStore readyApp ''u1'' twoDoc"
    by (simp add: ready_def twoQuestionStore_def readyApp_def twoDoc_def currentQ_def)
  have h2: "currentQ ''1'' \<in> set (questions twoDoc)"
    by (simp add: twoDoc_def)
  have h3: "answerFormRendered (currentQ ''1'') \<or> tryAgainFormRendered (currentQ ''1'')"
    by (simp add: answerFormRendered_def currentQ_def)
  have h4: "(\<lambda>t. t) ''Ik ga naar huis'' \<noteq> []"
    by simp
  have h5: "validateAnswer postCorrect (question (currentQ ''1''))
      ((\<lambda>t. t) ''Ik ga naar huis'') = Inr ?v"
    by (simp add: validateAnswer_def postCorrect_def orElse_def)
  from submitAnswer_appends [where trim = "\<lambda>t. t" and answerInput = "''Ik ga naar huis''"
      and now = "''2024-01-02T08:00:00.000Z''" and now' = "''2024-01-02T08:00:01.000Z''",
      OF h1 h2 h3 h4 h5]
  obtain fs' doc' as q' where
    as: "answers (currentQ ''1'') = AnswersArray as"
    and run: "submitAnswer (\<lambda>t. t) postCorrect ''2024-01-02T08:00:00.000Z''
            ''2024-01-02T08:00:01.000Z'' (currentQ ''1'') ''Ik ga naar huis''
            (twoQuestionStore, readyApp) =
          (fs', readyApp\<lparr>userDoc := Some doc', validatingQuestionId := None\<rparr>,
           [(question (currentQ ''1''), ''Ik ga naar huis'')])"
    and r: "ready fs' (readyApp\<lparr>userDoc := Some doc', validatingQuestionId := None\<rparr>)
              ''u1'' doc'"
    and qs: "questions doc' =
          map (\<lambda>x. if id' x = id' (currentQ ''1'') then q' else x) (questions twoDoc)"
    and q': "q' = removeUndefined_question
                ((currentQ ''1'')\<lparr>status := (if as = [] then answered
                                              else status (currentQ ''1'')),
                   answers := AnswersArray
                     (as @ [newAnswer ''Ik ga naar huis'' ?v ''2024-01-02T08:00:00.000Z''])\<rparr>)"
    by auto
  from as have as': "as = []"
    by (simp add: currentQ_def)
  from r have stored: "docs fs' ''u1'' = Some doc'"
    by (simp add: ready_def)
  have first: "map_option questions
        (docs (fst (submitAnswer (\<lambda>t. t) postCorrect ''2024-01-02T08:00:00.000Z''
            ''2024-01-02T08:00:01.000Z'' (currentQ ''1'') ''Ik ga naar huis''
            (twoQuestionStore, readyApp))) ''u1'') =
       Some [(currentQ ''1'')\<lparr>status := answered,
               answers := AnswersArray [\<lparr>answer = ''Ik ga naar huis'', isCorrect = True,
                  mistakes = ''none'', explanation = ''Goed zo'',
                  answeredAt = ''2024-01-02T08:00:00.000Z''\<rparr>]\<rparr>,
             currentQ ''2'']"
    and calls: "snd (snd (submitAnswer (\<lambda>t. t) postCorrect ''2024-01-02T08:00:00.000Z''
            ''2024-01-02T08:00:01.000Z'' (currentQ ''1'') ''Ik ga naar huis''
            (twoQuestionStore, readyApp))) = [(''Wat is dit?'', ''Ik ga naar huis'')]"
    using run stored qs q' as'
    by (simp_all add: twoDoc_def currentQ_def newAnswer_def removeUndefined_question_def)
  have k1: "ready triedStore triedApp ''u1'' triedDoc"
    by (simp add: ready_def triedStore_def triedApp_def triedDoc_def triedQ_def currentQ_def)
  have k2: "triedQ \<in> set (questions triedDoc)"
    by (simp add: triedDoc_def)
  have k3: "answerFormRendered triedQ \<or> tryAgainFormRendered triedQ"
    by (simp add: tryAgainFormRendered_def triedQ_def wrongAnswer_def)
  have k4: "(\<lambda>t. t) ''Dit is een boek'' \<noteq> []"
    by simp
  have k5: "validateAnswer postCorrect (question triedQ) ((\<lambda>t. t) ''Dit is een boek'') = Inr ?v"
    by (simp add: validateAnswer_def postCorrect_def orElse_def)
  from submitAnswer_appends [where trim = "\<lambda>t. t" and answerInput = "''Dit is een boek''"
      and now = "''2024-01-02T08:00:00.000Z''" and now' = "''2024-01-02T08:00:01.000Z''",
      OF k1 k2 k3 k4 k5]
  obtain gs' doc2 bs p' where
    bs: "answers triedQ = AnswersArray bs"
    and run2: "submitAnswer (\<lambda>t. t) postCorrect ''2024-01-02T08:00:00.000Z''
            ''2024-01-02T08:00:01.000Z'' triedQ ''Dit is een boek'' (triedStore, triedApp) =
          (gs', triedApp\<lparr>userDoc := Some doc2, validatingQuestionId := None\<rparr>,
           [(question triedQ, ''Dit is een boek'')])"
    and r2: "ready gs' (triedApp\<lparr>userDoc := Some doc2, validatingQuestionId := None\<rparr>)
              ''u1'' doc2"
    and qs2: "questions doc2 =
          map (\<lambda>x. if id' x = id' triedQ then p' else x) (questions triedDoc)"
    and p': "p' = removeUndefined_question
                (triedQ\<lparr>status := (if bs = [] then answered else status triedQ),
                   answers := AnswersArray
                     (bs @ [newAnswer ''Dit is een boek'' ?v ''2024-01-02T08:00:00.000Z''])\<rparr>)"
    by auto
  from bs have bs': "bs = [wrongAnswer]"
    by (simp add: triedQ_def)
  from r2 have stored2: "docs gs' ''u1'' = Some doc2"
    by (simp add: ready_def)
  have second: "map_option questions
        (docs (fst (submitAnswer (\<lambda>t. t) postCorrect ''2024-01-02T08:00:00.000Z''
            ''2024-01-02T08:00:01.000Z'' triedQ ''Dit is een boek''
            (triedStore, triedApp))) ''u1'') =
       Some [(currentQ ''1'')\<lparr>status := answered,
               answers := AnswersArray
                 [\<lparr>answer = ''Dit zijn boek'', isCorrect = False, mistakes = ''zijn'',
                    explanation = ''Het is: dit is een boek'',
                    answeredAt = ''2024-01-01T09:00:00.000Z''\<rparr>,
                  \<lparr>answer = ''Dit is een boek'', isCorrect = True,
                    mistakes = ''none'', explanation = ''Goed zo'',
                    answeredAt = ''2024-01-02T08:00:00.000Z''\<rparr>]\<rparr>,
             currentQ ''2'']"
    using run2 stored2 qs2 p' bs'
    by (simp add: triedDoc_def triedQ_def wrongAnswer_def currentQ_def newAnswer_def
        removeUndefined_question_def)
  have facts: "status (currentQ ''1'') = asked" "answers (currentQ ''1'') = AnswersArray []"
    "answerFormRendered (currentQ ''1'')"
    "status triedQ = answered" "answers triedQ = AnswersArray [wrongAnswer]"
    "tryAgainFormRendered triedQ"
    by (simp_all add: currentQ_def triedQ_def answerFormRendered_def tryAgainFormRendered_def
        wrongAnswer_def)
  from h1 h2 facts first calls k1 k2 second show ?thesis
    by blast
qed

end
